theory Spec2Isabelle
  imports Complex_Main "HOL-Library.Sublist"
begin

section \<open>Values and errors\<close>

text \<open>
  Exceptions of the Python source are values: every function that can raise returns
  \<open>py_error + 'a\<close>, with \<open>Inl\<close> for the exception.
\<close>

datatype py_error =
    AttributeError
  | IndexError
  | ValueError
  | KeyError
  | IOError
  | InvalidParameterError

text \<open>
  A numpy \<open>float64\<close> is modelled as an exact real number or one of the IEEE special
  values. Rounding, overflow and underflow are not modelled; what is modelled is what the
  source's divisions do at a zero divisor and how the special values travel through
  \<open>+\<close>, \<open>*\<close>, \<open>/\<close> and \<open>>\<close>. Every zero divisor of this program is a positive zero
  (a square, a cube root, or \<open>1 - e*e\<close>), so a finite value divided by zero takes the sign
  of the dividend.
\<close>

datatype npfloat = Fin real | PInf | NInf | NaN

fun np_isfinite :: "npfloat \<Rightarrow> bool" where
  "np_isfinite (Fin x) = True"
| "np_isfinite PInf = False"
| "np_isfinite NInf = False"
| "np_isfinite NaN = False"

fun np_add :: "npfloat \<Rightarrow> npfloat \<Rightarrow> npfloat" where
  "np_add (Fin a) (Fin b) = Fin (a + b)"
| "np_add (Fin a) PInf = PInf"
| "np_add (Fin a) NInf = NInf"
| "np_add (Fin a) NaN = NaN"
| "np_add PInf (Fin b) = PInf"
| "np_add PInf PInf = PInf"
| "np_add PInf NInf = NaN"
| "np_add PInf NaN = NaN"
| "np_add NInf (Fin b) = NInf"
| "np_add NInf PInf = NaN"
| "np_add NInf NInf = NInf"
| "np_add NInf NaN = NaN"
| "np_add NaN y = NaN"

fun np_mul :: "npfloat \<Rightarrow> npfloat \<Rightarrow> npfloat" where
  "np_mul (Fin a) (Fin b) = Fin (a * b)"
| "np_mul (Fin a) PInf = (if a = 0 then NaN else if 0 < a then PInf else NInf)"
| "np_mul (Fin a) NInf = (if a = 0 then NaN else if 0 < a then NInf else PInf)"
| "np_mul (Fin a) NaN = NaN"
| "np_mul PInf (Fin b) = (if b = 0 then NaN else if 0 < b then PInf else NInf)"
| "np_mul PInf PInf = PInf"
| "np_mul PInf NInf = NInf"
| "np_mul PInf NaN = NaN"
| "np_mul NInf (Fin b) = (if b = 0 then NaN else if 0 < b then NInf else PInf)"
| "np_mul NInf PInf = NInf"
| "np_mul NInf NInf = PInf"
| "np_mul NInf NaN = NaN"
| "np_mul NaN y = NaN"

fun np_div :: "npfloat \<Rightarrow> npfloat \<Rightarrow> npfloat" where
  "np_div (Fin a) (Fin b) =
     (if b = 0 then (if a = 0 then NaN else if 0 < a then PInf else NInf)
      else Fin (a / b))"
| "np_div (Fin a) PInf = Fin 0"
| "np_div (Fin a) NInf = Fin 0"
| "np_div (Fin a) NaN = NaN"
| "np_div PInf (Fin b) = (if 0 \<le> b then PInf else NInf)"
| "np_div PInf PInf = NaN"
| "np_div PInf NInf = NaN"
| "np_div PInf NaN = NaN"
| "np_div NInf (Fin b) = (if 0 \<le> b then NInf else PInf)"
| "np_div NInf PInf = NaN"
| "np_div NInf NInf = NaN"
| "np_div NInf NaN = NaN"
| "np_div NaN y = NaN"

text \<open>\<open>np_less x y\<close> is the comparison \<open>x < y\<close> (and \<open>y > x\<close>): false when either is NaN.\<close>

fun np_less :: "npfloat \<Rightarrow> npfloat \<Rightarrow> bool" where
  "np_less (Fin a) (Fin b) = (a < b)"
| "np_less (Fin a) PInf = True"
| "np_less (Fin a) NInf = False"
| "np_less (Fin a) NaN = False"
| "np_less PInf y = False"
| "np_less NInf (Fin b) = True"
| "np_less NInf PInf = True"
| "np_less NInf NInf = False"
| "np_less NInf NaN = False"
| "np_less NaN y = False"

text \<open>\<open>x ** (1./3)\<close> at a finite \<open>x\<close>: NaN at a negative base, the cube root otherwise.\<close>

definition np_cbrt :: "real \<Rightarrow> npfloat" where
  "np_cbrt x = (if x < 0 then NaN else Fin (x powr (1 / 3)))"

text \<open>\<open>a.sum()\<close> of a one-dimensional array.\<close>

fun np_sum :: "npfloat list \<Rightarrow> npfloat" where
  "np_sum [] = Fin 0"
| "np_sum (x # xs) = np_add x (np_sum xs)"

text \<open>
  An elementwise binary operation on two one-dimensional arrays, with numpy's
  broadcasting: equal lengths, or one operand of length one; ValueError otherwise.
\<close>

definition np_zip_with :: "('a \<Rightarrow> 'b \<Rightarrow> 'c) \<Rightarrow> 'a list \<Rightarrow> 'b list \<Rightarrow> py_error + 'c list" where
  "np_zip_with g xs ys =
     (if length xs = length ys then Inr (map2 g xs ys)
      else if length ys = 1 then Inr (map (\<lambda>x. g x (hd ys)) xs)
      else if length xs = 1 then Inr (map (\<lambda>y. g (hd xs) y) ys)
      else Inl ValueError)"

section \<open>lightcurve.py\<close>

text \<open>
  A \<open>Planet\<close> holds \<open>period\<close>, \<open>epoch\<close> and \<open>duration\<close>. \<open>TransitModel.lnprior\<close> reads
  two further attributes of each planet, \<open>_period\<close> and \<open>_epoch\<close>, each a pair (mean,
  uncertainty) of the discovery measurement; the class in lightcurve.py does not set
  them, so they are fields of the record, supplied from outside: \<open>pl_prior_period\<close> is
  \<open>_period\<close> and \<open>pl_prior_epoch\<close> is \<open>_epoch\<close>.
\<close>

record Planet =
  pl_period :: real
  pl_epoch :: real
  pl_duration :: real
  pl_prior_period :: "real \<times> real"
  pl_prior_epoch :: "real \<times> real"

text \<open>
  The fields of a \<open>LightCurve\<close>: \<open>lc_time\<close>, \<open>lc_flux\<close>, \<open>lc_flux_err\<close> and
  \<open>lc_detrended_flux\<close> are the private arrays \<open>_time\<close>, \<open>_flux\<close>, \<open>_flux_err\<close> and
  \<open>_detrended_flux\<close>; \<open>lc_class\<close> is the object's class, what \<open>type(self.lc)\<close> returns.
\<close>

record LightCurve =
  lc_mask :: "bool list"
  lc_texp :: real
  lc_planets :: "Planet list"
  lc_time :: "real list"
  lc_flux :: "real list"
  lc_flux_err :: "real list"
  lc_detrended_flux :: "real list"
  lc_class :: string

text \<open>
  \<open>a[~mask]\<close>: the entries of \<open>a\<close> where the mask is False. The mask and the arrays
  of a light curve have one length, that of the observation series.
\<close>

definition unmasked :: "bool list \<Rightarrow> 'a list \<Rightarrow> 'a list" where
  "unmasked msk xs = map snd (filter (\<lambda>(b, x). \<not> b) (zip msk xs))"

definition LightCurve_time :: "LightCurve \<Rightarrow> real list" where
  "LightCurve_time lc = unmasked (lc_mask lc) (lc_time lc)"

definition LightCurve_t :: "LightCurve \<Rightarrow> real list" where
  "LightCurve_t lc = LightCurve_time lc"

definition LightCurve_rawflux :: "LightCurve \<Rightarrow> real list" where
  "LightCurve_rawflux lc = unmasked (lc_mask lc) (lc_flux lc)"

definition LightCurve_flux_err :: "LightCurve \<Rightarrow> real list" where
  "LightCurve_flux_err lc = unmasked (lc_mask lc) (lc_flux_err lc)"

definition LightCurve_flux :: "LightCurve \<Rightarrow> real list" where
  "LightCurve_flux lc = unmasked (lc_mask lc) (lc_detrended_flux lc)"

definition n_planets :: "LightCurve \<Rightarrow> nat" where
  "n_planets lc = length (lc_planets lc)"

text \<open>
  The property \<open>f\<close> returns \<open>self.f\<close>: evaluating it evaluates it again. \<open>None\<close> is
  "does not return a value".
\<close>

partial_function (option) LightCurve_f :: "LightCurve \<Rightarrow> real list option" where
  "LightCurve_f lc = LightCurve_f lc"

text \<open>
  \<open>Planet.t_folded\<close> calls \<open>t_folded\<close> of the module utils, which maps a time to the
  time since the nearest transit of the given period and epoch. It is taken as a
  parameter, \<open>ext_t_folded\<close> below, applied to every entry of the array.
\<close>

section \<open>Tables and the HDF file\<close>

text \<open>
  A posterior sample table (a pandas DataFrame) is a map from column names to columns.
\<close>

type_synonym DataFrame = "string \<rightharpoonup> real list"

text \<open>
  The file system is a map from file names to HDF stores. A store is a list of nodes,
  each under its key, the list of the names on the way from the root: the key
  \<open>'a/b'\<close>, like \<open>'/a/b'\<close>, is \<open>[a, b]\<close>, and the root is \<open>[]\<close>. A node holds a table and the
  attributes \<open>save_hdf\<close> attaches to it; an attribute that was never set is \<open>None\<close>.
  Groups are not stored: a group exists when a node lies at it or below it, and the root
  always exists. Writing a node under a key skips the empty names of the key.
\<close>

record hdf_attrs =
  at_width :: "real option"
  at_continuum_method :: "string option"
  at_lc_type :: "string option"

record hdf_node =
  nd_table :: DataFrame
  nd_attrs :: hdf_attrs

type_synonym hdf_store = "(string list \<times> hdf_node) list"

type_synonym filesystem = "string \<rightharpoonup> hdf_store"

fun split_path :: "string \<Rightarrow> string \<Rightarrow> string list" where
  "split_path cur [] = (if cur = [] then [] else [cur])"
| "split_path cur (c # cs) =
     (if c = CHR ''/''
      then (if cur = [] then split_path [] cs else cur # split_path [] cs)
      else split_path (cur @ [c]) cs)"

definition hdf_key :: "string \<Rightarrow> string list" where
  "hdf_key k = split_path [] k"

text \<open>The pathname of a node or group: \<open>/\<close> for the root, \<open>/a/b\<close> for \<open>[a, b]\<close>.\<close>

definition hdf_pathname :: "string list \<Rightarrow> string" where
  "hdf_pathname g = (if g = [] then ''/'' else concat (map (\<lambda>name. ''/'' @ name) g))"

text \<open>
  \<open>path in store\<close> of pandas: the store looks the key up and compares the key, as a
  string, with the pathname of what it found: the key must be that pathname or that
  pathname without its leading slash. So \<open>'run1'\<close>, \<open>'/run1'\<close> and, for the root, \<open>''\<close>
  and \<open>'/'\<close> are in the store when the group exists, and a key such as \<open>'run1/'\<close> or
  \<open>'//run1'\<close> never is.
\<close>

definition store_contains :: "hdf_store \<Rightarrow> string \<Rightarrow> bool" where
  "store_contains st path =
     (let g = hdf_key path
      in (path = hdf_pathname g \<or> path = tl (hdf_pathname g))
         \<and> (g = [] \<or> list_ex (\<lambda>(k, nd). prefix g k) st))"

definition store_put :: "hdf_store \<Rightarrow> string list \<Rightarrow> hdf_node \<Rightarrow> hdf_store" where
  "store_put st k nd = (k, nd) # filter (\<lambda>(k', nd'). k' \<noteq> k) st"

definition open_store :: "filesystem \<Rightarrow> string \<Rightarrow> hdf_store" where
  "open_store fs filename = (case fs filename of None \<Rightarrow> [] | Some st \<Rightarrow> st)"

section \<open>External collaborators\<close>

text \<open>
  What fitter.py and lightcurve.py use and neither defines: the gravitational constant
  \<open>G\<close> of astropy (\<open>ext_G\<close>); \<open>t_folded\<close> and \<open>lc_eval\<close> of the module utils;
  \<open>save_hdf\<close> and \<open>load_hdf\<close> of the light curve. \<open>lc_eval p t texp\<close> is the
  transit-physics model: it returns an array of fluxes or raises. \<open>ext_lc_save_hdf lc fs
  filename path\<close> is \<open>lc.save_hdf(filename, path=path, append=True)\<close> and returns the new
  file system; \<open>ext_lc_load_hdf ty fs filename path\<close> is \<open>ty.load_hdf(filename,
  path=path)\<close> for the class \<open>ty\<close>.
\<close>

record ext =
  ext_G :: real
  ext_t_folded :: "real \<Rightarrow> real \<Rightarrow> real \<Rightarrow> real"
  ext_lc_eval :: "real list \<Rightarrow> real list \<Rightarrow> real \<Rightarrow> py_error + real list"
  ext_lc_save_hdf :: "LightCurve \<Rightarrow> filesystem \<Rightarrow> string \<Rightarrow> string \<Rightarrow> py_error + filesystem"
  ext_lc_load_hdf :: "string \<Rightarrow> filesystem \<Rightarrow> string \<Rightarrow> string \<Rightarrow> py_error + LightCurve"

definition DAY :: real where
  "DAY = 86400"

section \<open>Transit windows\<close>

definition Planet_t_folded :: "ext \<Rightarrow> Planet \<Rightarrow> real list \<Rightarrow> real list" where
  "Planet_t_folded E pl ts = map (\<lambda>x. ext_t_folded E x (pl_period pl) (pl_epoch pl)) ts"

definition Planet_t_close :: "ext \<Rightarrow> Planet \<Rightarrow> real list \<Rightarrow> real \<Rightarrow> bool list" where
  "Planet_t_close E pl ts wd = map (\<lambda>x. \<bar>x\<bar> < wd * pl_duration pl) (Planet_t_folded E pl ts)"

text \<open>\<open>self.planets[i]\<close> raises IndexError when there is no planet \<open>i\<close>.\<close>

definition LightCurve_t_close :: "ext \<Rightarrow> LightCurve \<Rightarrow> nat \<Rightarrow> real \<Rightarrow> py_error + bool list" where
  "LightCurve_t_close E lc i wd =
     (if i < length (lc_planets lc)
      then Inr (Planet_t_close E (lc_planets lc ! i) (LightCurve_time lc) wd)
      else Inl IndexError)"

text \<open>
  Modelled from the spec: \<open>LightCurve.close(i, width)\<close>, which \<open>TransitModel.evaluate\<close>
  calls, is not defined in lightcurve.py. The spec has the evaluator take the observation
  indices near a candidate's transit window, the window's width given in units of the
  duration; that is what \<open>t_close\<close> of lightcurve.py computes ("True everywhere within
  width*duration of planet i"), so \<open>close\<close> is \<open>t_close\<close>.
\<close>

definition LightCurve_close :: "ext \<Rightarrow> LightCurve \<Rightarrow> nat \<Rightarrow> real \<Rightarrow> py_error + bool list" where
  "LightCurve_close E lc i wd = LightCurve_t_close E lc i wd"

section \<open>fitter.py: the model and its state\<close>

text \<open>
  Of the emcee sampler the model reads only \<open>flatchain\<close>, a two-dimensional array: its
  rows, each of \<open>fc_ndim\<close> entries.
\<close>

record Sampler =
  fc_ndim :: nat
  fc_rows :: "real list list"

text \<open>
  \<open>tm_samples\<close> is the attribute \<open>_samples\<close> and \<open>tm_bestfit\<close> is \<open>_bestfit\<close>.
  \<open>tm_sampler\<close> is \<open>None\<close> as long as the attribute \<open>sampler\<close> is not set
  (\<open>hasattr(self, 'sampler')\<close> is False).
\<close>

record TransitModel =
  tm_lc :: LightCurve
  tm_width :: real
  tm_continuum_method :: string
  tm_bestfit :: "real list option"
  tm_samples :: "DataFrame option"
  tm_sampler :: "Sampler option"

definition TransitModel_init :: "LightCurve \<Rightarrow> real \<Rightarrow> string \<Rightarrow> TransitModel" where
  "TransitModel_init lc wd cm =
     \<lparr>tm_lc = lc, tm_width = wd, tm_continuum_method = cm,
      tm_bestfit = None, tm_samples = None, tm_sampler = None\<rparr>"

text \<open>
  The calls a function makes are recorded in the order they happen, so that "is not
  called" and "is called once" are statements about the returned list.
\<close>

datatype call =
    Call_lnlike "real list"
  | Call_lc_eval "real list" "real list" real
  | Call_make_samples

section \<open>fitter.py: the flux model\<close>

definition continuum :: "real \<Rightarrow> real list \<Rightarrow> real list" where
  "continuum p0 ts = map (\<lambda>_. p0 * 1) ts"

text \<open>
  \<open>close += c\<close> on boolean arrays is the elementwise "or", written into \<open>close\<close>:
  \<open>c\<close> has the length of \<open>close\<close> or length one; ValueError otherwise.
\<close>

definition np_ior :: "bool list \<Rightarrow> bool list \<Rightarrow> py_error + bool list" where
  "np_ior close c =
     (if length c = length close then Inr (map2 (\<or>) close c)
      else if length c = 1 then Inr (map (\<lambda>x. x \<or> hd c) close)
      else Inl ValueError)"

text \<open>The loop of \<open>evaluate\<close>: \<open>close += self.lc.close(i, width=self.width)\<close>.\<close>

fun evaluate_close :: "ext \<Rightarrow> TransitModel \<Rightarrow> nat list \<Rightarrow> bool list \<Rightarrow> py_error + bool list" where
  "evaluate_close E m [] close = Inr close"
| "evaluate_close E m (i # is) close =
     (case LightCurve_close E (tm_lc m) i (tm_width m) of
        Inl e \<Rightarrow> Inl e
      | Inr c \<Rightarrow>
          (case np_ior close c of
             Inl e \<Rightarrow> Inl e
           | Inr close' \<Rightarrow> evaluate_close E m is close'))"

text \<open>\<open>a[close]\<close>: the entries of \<open>a\<close> where \<open>close\<close> is True.\<close>

definition selected :: "bool list \<Rightarrow> 'a list \<Rightarrow> 'a list" where
  "selected close xs = map snd (filter fst (zip close xs))"

text \<open>
  \<open>scatter close fs vs\<close> writes the values \<open>vs\<close>, in order, to the places of \<open>fs\<close> where
  \<open>close\<close> is True.
\<close>

fun scatter :: "bool list \<Rightarrow> 'a list \<Rightarrow> 'a list \<Rightarrow> 'a list" where
  "scatter (c # cs) (x # xs) vs =
     (if c then (case vs of [] \<Rightarrow> x # scatter cs xs [] | v # vs' \<Rightarrow> v # scatter cs xs vs')
      else x # scatter cs xs vs)"
| "scatter cs xs vs = xs"

text \<open>
  \<open>f[close] = vals\<close>: as many values as selected places, or a single value that is
  written to all of them; ValueError otherwise.
\<close>

definition setitem_mask :: "'a list \<Rightarrow> bool list \<Rightarrow> 'a list \<Rightarrow> py_error + 'a list" where
  "setitem_mask fs close vs =
     (if length vs = length (filter id close) then Inr (scatter close fs vs)
      else if length vs = 1 then Inr (scatter close fs (replicate (length (filter id close)) (hd vs)))
      else Inl ValueError)"

definition evaluate :: "ext \<Rightarrow> TransitModel \<Rightarrow> real list \<Rightarrow> (py_error + real list) \<times> call list" where
  "evaluate E m p =
     (case p of
        [] \<Rightarrow> (Inl IndexError, [])
      | p0 # rest \<Rightarrow>
          (let ts = LightCurve_t (tm_lc m);
               f = continuum p0 ts
           in case evaluate_close E m [0 ..< n_planets (tm_lc m)] (map (\<lambda>_. False) ts) of
                Inl e \<Rightarrow> (Inl e, [])
              | Inr close \<Rightarrow>
                  (let tc = selected close ts;
                       cs = [Call_lc_eval (drop 1 p) tc (lc_texp (tm_lc m))]
                   in case ext_lc_eval E (drop 1 p) tc (lc_texp (tm_lc m)) of
                        Inl e \<Rightarrow> (Inl e, cs)
                      | Inr vals \<Rightarrow> (setitem_mask f close vals, cs))))"

section \<open>fitter.py: likelihood, prior and posterior\<close>

text \<open>
  The sum of \<open>lnlike\<close>:
  \<open>(-0.5 * (flux_model - self.lc.flux)**2 / self.lc.flux_err**2).sum()\<close>.
\<close>

definition lnlike_sum :: "real list \<Rightarrow> real list \<Rightarrow> real list \<Rightarrow> py_error + npfloat" where
  "lnlike_sum flux_model fl fe =
     (case np_zip_with (\<lambda>a b. a - b) flux_model fl of
        Inl e \<Rightarrow> Inl e
      | Inr d \<Rightarrow>
          (case np_zip_with (\<lambda>a b. np_div (Fin a) (Fin b))
                  (map (\<lambda>x. - 0.5 * x ^ 2) d) (map (\<lambda>x. x ^ 2) fe) of
             Inl e \<Rightarrow> Inl e
           | Inr q \<Rightarrow> Inr (np_sum q)))"

definition lnlike :: "ext \<Rightarrow> TransitModel \<Rightarrow> real list \<Rightarrow> (py_error + npfloat) \<times> call list" where
  "lnlike E m p =
     (case evaluate E m p of
        (Inl e, cs) \<Rightarrow>
          (if e = InvalidParameterError then (Inr NInf, Call_lnlike p # cs)
           else (Inl e, Call_lnlike p # cs))
      | (Inr flux_model, cs) \<Rightarrow>
          (lnlike_sum flux_model (LightCurve_flux (tm_lc m)) (LightCurve_flux_err (tm_lc m)),
           Call_lnlike p # cs))"

text \<open>The local variables \<open>factor\<close>, \<open>aR\<close> and \<open>arg\<close> of the loop of \<open>lnprior\<close>.\<close>

definition lnprior_factor :: "real \<Rightarrow> real \<Rightarrow> npfloat" where
  "lnprior_factor e w =
     (if e > 0 then np_div (Fin (1 + e * sin w)) (Fin (1 - e * e)) else Fin 1)"

definition lnprior_aR :: "ext \<Rightarrow> real \<Rightarrow> real \<Rightarrow> npfloat" where
  "lnprior_aR E rhostar period = np_cbrt (rhostar * ext_G E * (period * DAY) ^ 2 / (3 * pi))"

definition lnprior_arg :: "ext \<Rightarrow> real \<Rightarrow> real \<Rightarrow> real \<Rightarrow> real \<Rightarrow> real \<Rightarrow> npfloat" where
  "lnprior_arg E rhostar period b e w =
     np_div (np_mul (Fin b) (lnprior_factor e w)) (lnprior_aR E rhostar period)"

text \<open>
  One pass of the loop of \<open>lnprior\<close> over the candidates: \<open>Return v\<close> is an early
  \<open>return v\<close> out of the loop, \<open>Next tot\<close> goes on with the new total. The slice
  \<open>p[5+i*6:11+i*6]\<close> is unpacked into six names, which raises ValueError when it is
  shorter. At \<open>np.log(1 / rprs)\<close> the check before has left \<open>rprs > 0\<close>.
\<close>

datatype loop_step = Return npfloat | Next npfloat

definition lnprior_body :: "ext \<Rightarrow> TransitModel \<Rightarrow> real list \<Rightarrow> real \<Rightarrow> nat \<Rightarrow> npfloat \<Rightarrow> py_error + loop_step" where
  "lnprior_body E m p rhostar i tot =
     (let s = take 6 (drop (5 + i * 6) p) in
      if length s \<noteq> 6 then Inl ValueError
      else
        (let period = s ! 0; epoch = s ! 1; b = s ! 2; rprs = s ! 3; e = s ! 4; w = s ! 5 in
         if np_less (Fin 1) (lnprior_arg E rhostar period b e w) then Inr (Return NInf)
         else if period \<le> 0 then Inr (Return NInf)
         else if \<not> (0 \<le> e \<and> e < 1) then Inr (Return NInf)
         else if b < 0 then Inr (Return NInf)
         else if rprs \<le> 0 then Inr (Return NInf)
         else
           (let (prior_p, prior_p_err) = pl_prior_period (lc_planets (tm_lc m) ! i);
                tot1 = np_add tot (np_div (Fin (- 0.5 * (period - prior_p))) (Fin (prior_p_err ^ 2)));
                (prior_ep, prior_ep_err) = pl_prior_epoch (lc_planets (tm_lc m) ! i);
                tot2 = np_add tot1 (np_div (Fin (- 0.5 * (epoch - prior_ep))) (Fin (prior_ep_err ^ 2)));
                tot3 = np_add tot2 (Fin (ln (1 / rprs)))
            in Inr (Next tot3))))"

text \<open>The loop \<open>for i in xrange(self.lc.n_planets)\<close>, and \<open>return tot\<close> after it.\<close>

fun lnprior_loop :: "ext \<Rightarrow> TransitModel \<Rightarrow> real list \<Rightarrow> real \<Rightarrow> nat list \<Rightarrow> npfloat \<Rightarrow> py_error + npfloat" where
  "lnprior_loop E m p rhostar [] tot = Inr tot"
| "lnprior_loop E m p rhostar (i # is) tot =
     (case lnprior_body E m p rhostar i tot of
        Inl e \<Rightarrow> Inl e
      | Inr (Return v) \<Rightarrow> Inr v
      | Inr (Next tot') \<Rightarrow> lnprior_loop E m p rhostar is tot')"

definition lnprior :: "ext \<Rightarrow> TransitModel \<Rightarrow> real list \<Rightarrow> py_error + npfloat" where
  "lnprior E m p =
     (let s = take 5 p in
      if length s \<noteq> 5 then Inl ValueError
      else
        (let flux_zp = s ! 0; rhostar = s ! 1; q1 = s ! 2; q2 = s ! 3; dilution = s ! 4 in
         if \<not> (0 \<le> q1 \<and> q1 \<le> 1 \<and> 0 \<le> q2 \<and> q2 \<le> 1) then Inr NInf
         else if rhostar < 0 then Inr NInf
         else if \<not> (0 \<le> dilution \<and> dilution < 1) then Inr NInf
         else lnprior_loop E m p rhostar [0 ..< n_planets (tm_lc m)] (Fin 0)))"

definition lnpost :: "ext \<Rightarrow> TransitModel \<Rightarrow> real list \<Rightarrow> (py_error + npfloat) \<times> call list" where
  "lnpost E m p =
     (case lnprior E m p of
        Inl e \<Rightarrow> (Inl e, [])
      | Inr prior \<Rightarrow>
          (if np_isfinite prior
           then (case lnlike E m p of
                   (Inl e, cs) \<Rightarrow> (Inl e, cs)
                 | (Inr like, cs) \<Rightarrow> (Inr (np_add prior like), cs))
           else (Inr prior, [])))"

section \<open>fitter.py: the posterior samples\<close>

text \<open>
  \<open>fit_emcee\<close> runs the emcee sampler and stores it in \<open>self.sampler\<close>; the sampler it
  has run is the argument \<open>s\<close>. It leaves \<open>_samples\<close> as it is.
\<close>

definition fit_emcee :: "Sampler \<Rightarrow> TransitModel \<Rightarrow> TransitModel" where
  "fit_emcee s m = m\<lparr>tm_sampler := Some s\<rparr>"

text \<open>\<open>flatchain[:, k]\<close>: column \<open>k\<close>, IndexError when there is none.\<close>

definition flatchain_col :: "Sampler \<Rightarrow> nat \<Rightarrow> py_error + real list" where
  "flatchain_col s k = (if k < fc_ndim s then Inr (map (\<lambda>r. r ! k) (fc_rows s)) else Inl IndexError)"

text \<open>The decimal digits of a number, as \<open>'{}'.format\<close> writes them.\<close>

fun str_nat :: "nat \<Rightarrow> string" where
  "str_nat n =
     (if n < 10 then [''0123456789'' ! n]
      else str_nat (n div 10) @ [''0123456789'' ! (n mod 10)])"

declare str_nat.simps [simp del]

definition par_names :: "string list" where
  "par_names = [''period'', ''epoch'', ''b'', ''rprs'', ''ecc'', ''omega'']"

text \<open>
  The two nested loops of \<open>_make_samples\<close>, over the planets \<open>i\<close> and over
  \<open>enumerate(par_names)\<close>: each pass sets the column \<open>'{par}_{i+1}'\<close> of the table.
\<close>

fun make_samples_inner :: "Sampler \<Rightarrow> nat \<Rightarrow> (nat \<times> string) list \<Rightarrow> DataFrame \<Rightarrow> py_error + DataFrame" where
  "make_samples_inner s i [] df = Inr df"
| "make_samples_inner s i ((j, par) # rest) df =
     (case flatchain_col s (5 + j + i * 6) of
        Inl e \<Rightarrow> Inl e
      | Inr c \<Rightarrow> make_samples_inner s i rest (df(par @ ''_'' @ str_nat (i + 1) \<mapsto> c)))"

fun make_samples_outer :: "Sampler \<Rightarrow> nat list \<Rightarrow> DataFrame \<Rightarrow> py_error + DataFrame" where
  "make_samples_outer s [] df = Inr df"
| "make_samples_outer s (i # is) df =
     (case make_samples_inner s i (enumerate 0 par_names) df of
        Inl e \<Rightarrow> Inl e
      | Inr df' \<Rightarrow> make_samples_outer s is df')"

text \<open>The table \<open>_make_samples\<close> builds from the chain of the sampler \<open>s\<close>.\<close>

definition make_samples_table :: "Sampler \<Rightarrow> nat \<Rightarrow> py_error + DataFrame" where
  "make_samples_table s n =
     (case flatchain_col s 0 of Inl e \<Rightarrow> Inl e | Inr flux_zp \<Rightarrow>
      case flatchain_col s 1 of Inl e \<Rightarrow> Inl e | Inr rho \<Rightarrow>
      case flatchain_col s 2 of Inl e \<Rightarrow> Inl e | Inr q1 \<Rightarrow>
      case flatchain_col s 3 of Inl e \<Rightarrow> Inl e | Inr q2 \<Rightarrow>
      case flatchain_col s 4 of Inl e \<Rightarrow> Inl e | Inr dilution \<Rightarrow>
        make_samples_outer s [0 ..< n]
          [''flux_zp'' \<mapsto> flux_zp, ''rho'' \<mapsto> rho, ''q1'' \<mapsto> q1, ''q2'' \<mapsto> q2,
           ''dilution'' \<mapsto> dilution])"

text \<open>\<open>_make_samples\<close>: reading \<open>self.sampler\<close> raises AttributeError when it is not set.\<close>

definition make_samples :: "TransitModel \<Rightarrow> py_error + TransitModel" where
  "make_samples m =
     (case tm_sampler m of
        None \<Rightarrow> Inl AttributeError
      | Some s \<Rightarrow>
          (case make_samples_table s (n_planets (tm_lc m)) of
             Inl e \<Rightarrow> Inl e
           | Inr df \<Rightarrow> Inr (m\<lparr>tm_samples := Some df\<rparr>)))"

text \<open>
  The property \<open>samples\<close>: its value or exception, the model after the access, and the
  calls of \<open>_make_samples\<close> it made. After \<open>_make_samples\<close> has returned, \<open>_samples\<close> is
  set; the branch for \<open>None\<close> there is never taken.
\<close>

definition samples :: "TransitModel \<Rightarrow> (py_error + DataFrame) \<times> TransitModel \<times> call list" where
  "samples m =
     (if tm_sampler m = None \<and> tm_samples m = None then (Inl AttributeError, m, [])
      else
        (case tm_samples m of
           Some df \<Rightarrow> (Inr df, m, [])
         | None \<Rightarrow>
             (case make_samples m of
                Inl e \<Rightarrow> (Inl e, m, [Call_make_samples])
              | Inr m' \<Rightarrow>
                  (case tm_samples m' of
                     Some df \<Rightarrow> (Inr df, m', [Call_make_samples])
                   | None \<Rightarrow> (Inl AttributeError, m', [Call_make_samples])))))"

section \<open>fitter.py: persistence\<close>

text \<open>
  The head of \<open>save_hdf\<close>, up to the IOError: the file system after it, where
  \<open>os.remove\<close> may have deleted the file. \<open>appnd\<close> is the argument \<open>append\<close>.
\<close>

definition save_hdf_check :: "filesystem \<Rightarrow> string \<Rightarrow> string \<Rightarrow> bool \<Rightarrow> bool \<Rightarrow> py_error + filesystem" where
  "save_hdf_check fs filename path overwrite appnd =
     (case fs filename of
        None \<Rightarrow> Inr fs
      | Some store \<Rightarrow>
          (if store_contains store path
           then (if overwrite then Inr (fs(filename := None))
                 else if \<not> appnd then Inl IOError
                 else Inr fs)
           else Inr fs))"

text \<open>
  \<open>df.to_hdf(filename, key)\<close> opens the file, creating it when it is not there, and puts
  the table under the key, in place of what was there.
\<close>

definition to_hdf :: "DataFrame \<Rightarrow> filesystem \<Rightarrow> string \<Rightarrow> string \<Rightarrow> filesystem" where
  "to_hdf df fs filename key =
     fs(filename \<mapsto> store_put (open_store fs filename) (hdf_key key)
          \<lparr>nd_table = df,
           nd_attrs = \<lparr>at_width = None, at_continuum_method = None, at_lc_type = None\<rparr>\<rparr>)"

text \<open>
  The three assignments to the attributes of the node at the key; \<open>get_storer\<close> raises
  KeyError when there is no such node.
\<close>

definition set_attrs :: "TransitModel \<Rightarrow> filesystem \<Rightarrow> string \<Rightarrow> string \<Rightarrow> py_error + filesystem" where
  "set_attrs m fs filename key =
     (case map_of (open_store fs filename) (hdf_key key) of
        None \<Rightarrow> Inl KeyError
      | Some nd \<Rightarrow>
          Inr (fs(filename \<mapsto> store_put (open_store fs filename) (hdf_key key)
                 (nd\<lparr>nd_attrs :=
                    \<lparr>at_width = Some (tm_width m),
                     at_continuum_method = Some (tm_continuum_method m),
                     at_lc_type = Some (lc_class (tm_lc m))\<rparr>\<rparr>))))"

text \<open>
  \<open>save_hdf\<close> returns nothing; the result is its exception if any, the file system and
  the model it leaves (reading \<open>self.samples\<close> may fill the cache).
\<close>

definition save_hdf :: "ext \<Rightarrow> TransitModel \<Rightarrow> filesystem \<Rightarrow> string \<Rightarrow> string \<Rightarrow> bool \<Rightarrow> bool \<Rightarrow> (py_error + unit) \<times> filesystem \<times> TransitModel" where
  "save_hdf E m fs filename path overwrite appnd =
     (case save_hdf_check fs filename path overwrite appnd of
        Inl e \<Rightarrow> (Inl e, fs, m)
      | Inr fs1 \<Rightarrow>
          (case samples m of
             (Inl e, m', cs) \<Rightarrow> (Inl e, fs1, m')
           | (Inr df, m', cs) \<Rightarrow>
               (let fs2 = to_hdf df fs1 filename (path @ ''/samples'') in
                case set_attrs m' fs2 filename (path @ ''/samples'') of
                  Inl e \<Rightarrow> (Inl e, fs2, m')
                | Inr fs3 \<Rightarrow>
                    (case ext_lc_save_hdf E (tm_lc m') fs3 filename path of
                       Inl e \<Rightarrow> (Inl e, fs3, m')
                     | Inr fs4 \<Rightarrow> (Inr (), fs4, m')))))"

text \<open>
  \<open>load_hdf\<close>: \<open>store[key]\<close> raises KeyError when there is no node at the key, and reading
  an attribute that was never set raises AttributeError. Opening a file that does not
  exist creates an empty one; the file system after \<open>load_hdf\<close> is not part of the
  result.
\<close>

definition load_hdf :: "ext \<Rightarrow> filesystem \<Rightarrow> string \<Rightarrow> string \<Rightarrow> py_error + TransitModel" where
  "load_hdf E fs filename path =
     (case map_of (open_store fs filename) (hdf_key (path @ ''/samples'')) of
        None \<Rightarrow> Inl KeyError
      | Some nd \<Rightarrow>
          (case at_width (nd_attrs nd) of None \<Rightarrow> Inl AttributeError | Some wd \<Rightarrow>
           case at_continuum_method (nd_attrs nd) of None \<Rightarrow> Inl AttributeError | Some cm \<Rightarrow>
           case at_lc_type (nd_attrs nd) of None \<Rightarrow> Inl AttributeError | Some lc_type \<Rightarrow>
             (case ext_lc_load_hdf E lc_type fs filename path of
                Inl e \<Rightarrow> Inl e
              | Inr lc \<Rightarrow> Inr ((TransitModel_init lc wd cm)\<lparr>tm_samples := Some (nd_table nd)\<rparr>))))"

section \<open>The statements of the specification\<close>

text \<open>
  The conditions under which the specification has \<open>lnprior\<close> return minus infinity,
  written from its words. The scaled impact parameter is
  \<open>b (1 + e sin w) / ((1 - e\<^sup>2) aR)\<close>, in the arithmetic of the program; the scaled
  semi-major axis \<open>aR\<close> is the one the program derives from the stellar density and the
  period. Candidate \<open>i\<close> has its six parameters from position \<open>5 + 6 i\<close> on.
\<close>

definition spec_scaled_b :: "ext \<Rightarrow> real \<Rightarrow> real \<Rightarrow> real \<Rightarrow> real \<Rightarrow> real \<Rightarrow> npfloat" where
  "spec_scaled_b E rhostar period b e w =
     np_div (Fin (b * (1 + e * sin w))) (np_mul (Fin (1 - e ^ 2)) (lnprior_aR E rhostar period))"

definition spec_candidate_invalid :: "ext \<Rightarrow> real list \<Rightarrow> nat \<Rightarrow> bool" where
  "spec_candidate_invalid E p i =
     (let rhostar = p ! 1; period = p ! (5 + 6 * i); b = p ! (5 + 6 * i + 2);
          rprs = p ! (5 + 6 * i + 3); e = p ! (5 + 6 * i + 4); w = p ! (5 + 6 * i + 5)
      in period \<le> 0 \<or> e < 0 \<or> 1 \<le> e \<or> b < 0 \<or> rprs \<le> 0
         \<or> np_less (Fin 1) (spec_scaled_b E rhostar period b e w))"

definition spec_invalid :: "ext \<Rightarrow> nat \<Rightarrow> real list \<Rightarrow> bool" where
  "spec_invalid E n p =
     (let rhostar = p ! 1; q1 = p ! 2; q2 = p ! 3; dilution = p ! 4
      in q1 < 0 \<or> 1 < q1 \<or> q2 < 0 \<or> 1 < q2 \<or> rhostar < 0 \<or> dilution < 0 \<or> 1 \<le> dilution
         \<or> (\<exists>i \<in> {0 ..< n}. spec_candidate_invalid E p i))"

text \<open>
  The value the specification gives for the prior of a valid parameter vector: over the
  candidates, the Gaussian terms on the period and on the epoch against the discovery
  measurements, and minus the logarithm of the radius ratio.
\<close>

definition spec_lnprior_value :: "TransitModel \<Rightarrow> real list \<Rightarrow> real" where
  "spec_lnprior_value m p =
     (\<Sum>i \<leftarrow> [0 ..< n_planets (tm_lc m)].
        (let period = p ! (5 + 6 * i); epoch = p ! (5 + 6 * i + 1); rprs = p ! (5 + 6 * i + 3);
             (prior_p, prior_p_err) = pl_prior_period (lc_planets (tm_lc m) ! i);
             (prior_ep, prior_ep_err) = pl_prior_epoch (lc_planets (tm_lc m) ! i)
         in - (1 / 2) * ((period - prior_p) / prior_p_err) ^ 2
            - (1 / 2) * ((epoch - prior_ep) / prior_ep_err) ^ 2
            - ln rprs))"

section \<open>A worked example\<close>

text \<open>
  One candidate with period 3, epoch 0.5 and duration 0.1, three observations of which
  the second is masked, a folding that is right near the first transit, and a
  transit-physics model that returns 0.99 at every time.
\<close>

definition ex_planet :: Planet where
  "ex_planet =
     \<lparr>pl_period = 3, pl_epoch = 1 / 2, pl_duration = 1 / 10,
      pl_prior_period = (3, 1), pl_prior_epoch = (1 / 2, 1)\<rparr>"

definition ex_lc :: LightCurve where
  "ex_lc =
     \<lparr>lc_mask = [False, True, False], lc_texp = 1 / 50, lc_planets = [ex_planet],
      lc_time = [1 / 2, 1, 2], lc_flux = [1, 5, 1], lc_flux_err = [1 / 10, 1 / 10, 1 / 10],
      lc_detrended_flux = [1, 5, 1], lc_class = ''LightCurve''\<rparr>"

definition ex_ext :: ext where
  "ex_ext =
     \<lparr>ext_G = 6674 / 10 ^ 11,
      ext_t_folded = (\<lambda>x period epoch. x - epoch),
      ext_lc_eval = (\<lambda>p ts texp. Inr (map (\<lambda>x. 99 / 100) ts)),
      ext_lc_save_hdf = (\<lambda>lc fs filename path. Inr fs),
      ext_lc_load_hdf = (\<lambda>ty fs filename path. Inr ex_lc)\<rparr>"

definition ex_model :: TransitModel where
  "ex_model = TransitModel_init ex_lc 2 ''constant''"

definition ex_sampler :: Sampler where
  "ex_sampler = \<lparr>fc_ndim = 11, fc_rows = [[1, 1, 1 / 2, 1 / 2, 0, 3, 1 / 2, 0, 1 / 10, 0, 0]]\<rparr>"

section \<open>Transit windows in the words of the specification\<close>

text \<open>
  An observation time is near a transit when it lies within width times duration of the
  transit window of some candidate: the union of the candidates' windows.
\<close>

definition spec_near_transit :: "ext \<Rightarrow> TransitModel \<Rightarrow> real \<Rightarrow> bool" where
  "spec_near_transit E m x =
     (\<exists>pl \<in> set (lc_planets (tm_lc m)).
        \<bar>ext_t_folded E x (pl_period pl) (pl_epoch pl)\<bar> < tm_width m * pl_duration pl)"

text \<open>The window of candidate \<open>i\<close> alone, as \<open>close(i, width)\<close> tests it.\<close>

definition planet_near :: "ext \<Rightarrow> TransitModel \<Rightarrow> nat \<Rightarrow> real \<Rightarrow> bool" where
  "planet_near E m i x =
     (\<bar>ext_t_folded E x (pl_period (lc_planets (tm_lc m) ! i)) (pl_epoch (lc_planets (tm_lc m) ! i))\<bar>
        < tm_width m * pl_duration (lc_planets (tm_lc m) ! i))"

text \<open>
  The Gaussian log-likelihood of the specification: minus one half of the sum, over the
  observations, of the squares of (model - observed) / error.
\<close>

definition spec_gauss_loglike :: "real list \<Rightarrow> real list \<Rightarrow> real list \<Rightarrow> real" where
  "spec_gauss_loglike model obs err =
     - (1 / 2) * (\<Sum>(mo, ob, er) \<leftarrow> zip model (zip obs err). ((mo - ob) / er) ^ 2)"

text \<open>The worked example with a transit-physics model that rejects every parameter vector.\<close>

definition ex_ext_invalid :: ext where
  "ex_ext_invalid = ex_ext\<lparr>ext_lc_eval := (\<lambda>p ts texp. Inl InvalidParameterError)\<rparr>"

section \<open>What a save leaves in the file\<close>

text \<open>
  The node \<open>save_hdf\<close> leaves under \<open>path/samples\<close>, the table with the three attributes set,
  and the file system after \<open>to_hdf\<close> and the three assignments, before the light curve
  saves itself.
\<close>

definition saved_node :: "TransitModel \<Rightarrow> DataFrame \<Rightarrow> hdf_node" where
  "saved_node m df =
     \<lparr>nd_table = df,
      nd_attrs = \<lparr>at_width = Some (tm_width m),
                  at_continuum_method = Some (tm_continuum_method m),
                  at_lc_type = Some (lc_class (tm_lc m))\<rparr>\<rparr>"

definition saved_fs :: "TransitModel \<Rightarrow> DataFrame \<Rightarrow> filesystem \<Rightarrow> string \<Rightarrow> string \<Rightarrow> filesystem" where
  "saved_fs m df fs filename path =
     fs(filename \<mapsto> store_put (open_store fs filename) (hdf_key (path @ ''/samples''))
          (saved_node m df))"

text \<open>
  The worked example with a sample table in place, and a file that holds a node below
  \<open>run1\<close> already.
\<close>

definition ex_df :: DataFrame where
  "ex_df = [''flux_zp'' \<mapsto> [1, 1], ''rho'' \<mapsto> [1, 2]]"

definition ex_fitted :: TransitModel where
  "ex_fitted = ex_model\<lparr>tm_samples := Some ex_df\<rparr>"

definition ex_fs :: filesystem where
  "ex_fs = [''fit.h5'' \<mapsto> [([''run1'', ''old''], saved_node ex_model Map.empty)]]"

section \<open>The terms of the prior as the program computes them\<close>

text \<open>
  What one pass of the loop of \<open>lnprior\<close> adds to \<open>tot\<close> for candidate \<open>i\<close>, and the
  condition that the uncertainties of its discovery measurements are not zero.
\<close>

definition lnprior_terms :: "TransitModel \<Rightarrow> real list \<Rightarrow> nat \<Rightarrow> real" where
  "lnprior_terms m p i =
     (let period = p ! (5 + 6 * i); epoch = p ! (5 + 6 * i + 1); rprs = p ! (5 + 6 * i + 3);
          (prior_p, prior_p_err) = pl_prior_period (lc_planets (tm_lc m) ! i);
          (prior_ep, prior_ep_err) = pl_prior_epoch (lc_planets (tm_lc m) ! i)
      in - 0.5 * (period - prior_p) / prior_p_err ^ 2
         + - 0.5 * (epoch - prior_ep) / prior_ep_err ^ 2
         + ln (1 / rprs))"

definition prior_errs_nonzero :: "TransitModel \<Rightarrow> nat \<Rightarrow> bool" where
  "prior_errs_nonzero m i =
     (snd (pl_prior_period (lc_planets (tm_lc m) ! i)) \<noteq> 0
      \<and> snd (pl_prior_epoch (lc_planets (tm_lc m) ! i)) \<noteq> 0)"


section \<open>The accessor f\<close>

lemma LightCurve_f_not_Some: "LightCurve_f lc \<noteq> Some y"
proof
  assume h: "LightCurve_f lc = Some y"
  show False
    by (rule LightCurve_f.raw_induct [where P = "\<lambda>_ _. False", OF _ h]) blast
qed

text \<open>
  C10: for every light curve the accessor \<open>f\<close> returns no value, since it is defined as
  itself, while \<open>time\<close>, \<open>flux\<close>, \<open>rawflux\<close> and \<open>flux_err\<close> return the unmasked entries
  of their arrays.
\<close>

theorem LightCurve_f_never_returns:
  "LightCurve_f lc = None
   \<and> LightCurve_time lc = unmasked (lc_mask lc) (lc_time lc)
   \<and> LightCurve_flux lc = unmasked (lc_mask lc) (lc_detrended_flux lc)
   \<and> LightCurve_rawflux lc = unmasked (lc_mask lc) (lc_flux lc)
   \<and> LightCurve_flux_err lc = unmasked (lc_mask lc) (lc_flux_err lc)"
proof -
  have "LightCurve_f lc = None"
    using LightCurve_f_not_Some [of lc] by (cases "LightCurve_f lc") auto
  then show ?thesis
    by (simp add: LightCurve_time_def LightCurve_flux_def LightCurve_rawflux_def
        LightCurve_flux_err_def)
qed

section \<open>The prior\<close>

lemma np_mul_one_left: "np_mul (Fin 1) x = x"
  by (cases x) simp_all

lemma lnprior_arg_eq_spec:
  assumes "0 \<le> e" "e < 1"
  shows "lnprior_arg E rhostar period b e w = spec_scaled_b E rhostar period b e w"
proof (cases "e = 0")
  case True
  then show ?thesis
    by (simp add: lnprior_arg_def spec_scaled_b_def lnprior_factor_def np_mul_one_left)
next
  case False
  with assms have e: "0 < e" by simp
  have "e * e < 1 * 1" using assms e by (intro mult_strict_mono) simp_all
  then have d: "0 < 1 - e * e" by simp
  have d2: "1 - e ^ 2 = 1 - e * e" by (simp add: power2_eq_square)
  show ?thesis
  proof (cases "lnprior_aR E rhostar period")
    case (Fin a)
    show ?thesis
    proof (cases "a = 0")
      case True
      then show ?thesis using Fin e d
        by (simp add: lnprior_arg_def spec_scaled_b_def lnprior_factor_def d2
            zero_less_mult_iff zero_less_divide_iff)
    next
      case False
      then show ?thesis using Fin e d
        by (simp add: lnprior_arg_def spec_scaled_b_def lnprior_factor_def d2 field_simps)
    qed
  qed (use e d in \<open>simp_all add: lnprior_arg_def spec_scaled_b_def lnprior_factor_def d2\<close>)
qed

lemma slice6_length:
  assumes "length p = 5 + 6 * n" "i < n"
  shows "length (take 6 (drop (5 + i * 6) p)) = 6"
  using assms by simp

lemma slice6_nth:
  assumes "length p = 5 + 6 * n" "i < n" "k < 6"
  shows "take 6 (drop (5 + i * 6) p) ! k = p ! (5 + 6 * i + k)"
  using assms by (simp add: mult.commute)

lemma lnprior_body_Return:
  assumes "lnprior_body E m p rhostar i tot = Inr (Return v)"
  shows "v = NInf"
  using assms
  by (auto simp: lnprior_body_def Let_def split: if_splits prod.splits)

lemma lnprior_body_invalid:
  assumes len: "length p = 5 + 6 * n" and i: "i < n"
    and bad: "spec_candidate_invalid E p i"
  shows "lnprior_body E m p (p ! 1) i tot = Inr (Return NInf)"
proof -
  let ?s = "take 6 (drop (5 + i * 6) p)"
  have l: "length ?s = 6" using slice6_length [OF len i] .
  have n0: "?s ! 0 = p ! (5 + 6 * i)" using slice6_nth [OF len i, of 0] by simp
  have n2: "?s ! 2 = p ! (5 + 6 * i + 2)" using slice6_nth [OF len i, of 2] by simp
  have n3: "?s ! 3 = p ! (5 + 6 * i + 3)" using slice6_nth [OF len i, of 3] by simp
  have n4: "?s ! 4 = p ! (5 + 6 * i + 4)" using slice6_nth [OF len i, of 4] by simp
  have n5: "?s ! 5 = p ! (5 + 6 * i + 5)" using slice6_nth [OF len i, of 5] by simp
  show ?thesis
  proof (cases "0 \<le> p ! (5 + 6 * i + 4) \<and> p ! (5 + 6 * i + 4) < 1")
    case True
    then have "lnprior_arg E (p ! 1) (p ! (5 + 6 * i)) (p ! (5 + 6 * i + 2)) (p ! (5 + 6 * i + 4)) (p ! (5 + 6 * i + 5))
        = spec_scaled_b E (p ! 1) (p ! (5 + 6 * i)) (p ! (5 + 6 * i + 2)) (p ! (5 + 6 * i + 4)) (p ! (5 + 6 * i + 5))"
      by (intro lnprior_arg_eq_spec) simp_all
    with bad True show ?thesis
      unfolding lnprior_body_def Let_def l n0 n2 n3 n4 n5 spec_candidate_invalid_def
      by auto
  next
    case False
    then show ?thesis
      unfolding lnprior_body_def Let_def l n0 n2 n3 n4 n5
      by auto
  qed
qed

lemma lnprior_loop_invalid:
  assumes len: "length p = 5 + 6 * n"
    and "\<forall>i \<in> set is. i < n"
    and "\<exists>i \<in> set is. spec_candidate_invalid E p i"
  shows "lnprior_loop E m p (p ! 1) is tot = Inr NInf"
  using assms(2,3)
proof (induction "is" arbitrary: tot)
  case Nil
  then show ?case by simp
next
  case (Cons i "is")
  have i: "i < n" using Cons.prems(1) by simp
  have l: "length (take 6 (drop (5 + i * 6) p)) = 6" using slice6_length [OF len i] .
  show ?case
  proof (cases "lnprior_body E m p (p ! 1) i tot")
    case (Inl e)
    then show ?thesis using l
      by (auto simp: lnprior_body_def Let_def split: if_splits prod.splits)
  next
    case (Inr st)
    show ?thesis
    proof (cases st)
      case (Return v)
      then show ?thesis using Inr lnprior_body_Return [of E m p "p ! 1" i tot v] by simp
    next
      case (Next tot')
      with Inr have "\<not> spec_candidate_invalid E p i"
        using lnprior_body_invalid [OF len i, of E m tot] by auto
      with Cons.prems have "\<exists>i \<in> set is. spec_candidate_invalid E p i" by auto
      moreover have "\<forall>i \<in> set is. i < n" using Cons.prems(1) by simp
      ultimately have "lnprior_loop E m p (p ! 1) is tot' = Inr NInf"
        by (rule Cons.IH [rotated])
      then show ?thesis using Inr Next by simp
    qed
  qed
qed

text \<open>
  C3: for a parameter vector of length \<open>5 + 6 n\<close>, \<open>lnprior\<close> returns minus infinity when
  \<open>q1\<close> or \<open>q2\<close> is outside \<open>[0, 1]\<close>, the stellar density is negative, the dilution is
  outside \<open>[0, 1)\<close>, or some candidate has a period \<open>\<le> 0\<close>, an eccentricity outside
  \<open>[0, 1)\<close>, a negative impact parameter, a radius ratio \<open>\<le> 0\<close>, or a scaled impact
  parameter above 1.
\<close>

theorem lnprior_invalid_is_minus_inf:
  assumes len: "length p = 5 + 6 * n_planets (tm_lc m)"
    and bad: "spec_invalid E (n_planets (tm_lc m)) p"
  shows "lnprior E m p = Inr NInf"
proof -
  have l5: "length (take 5 p) = 5" using len by simp
  have nth: "take 5 p ! 1 = p ! 1" "take 5 p ! 2 = p ! 2" "take 5 p ! 3 = p ! 3"
    "take 5 p ! 4 = p ! 4" by simp_all
  show ?thesis
  proof (cases "\<exists>i \<in> {0 ..< n_planets (tm_lc m)}. spec_candidate_invalid E p i")
    case True
    then have "lnprior_loop E m p (p ! 1) [0 ..< n_planets (tm_lc m)] (Fin 0) = Inr NInf"
      by (intro lnprior_loop_invalid [OF len]) auto
    then show ?thesis
      unfolding lnprior_def Let_def l5 nth by simp
  next
    case False
    with bad show ?thesis
      unfolding lnprior_def Let_def l5 nth spec_invalid_def by auto
  qed
qed

lemma ex_n_planets: "n_planets (tm_lc ex_model) = 1"
  by (simp add: ex_model_def TransitModel_init_def ex_lc_def n_planets_def)

theorem lnprior_invalid_witness:
  "lnprior ex_ext ex_model [1, 1, 3 / 2, 1 / 2, 0, 3, 1 / 2, 0, 1 / 10, 0, 0] = Inr NInf
   \<and> lnprior ex_ext ex_model [1, 1, 1 / 2, 1 / 2, 0, - 3, 1 / 2, 0, 1 / 10, 0, 0] = Inr NInf
   \<and> lnprior ex_ext ex_model [1, 0, 1 / 2, 1 / 2, 0, 3, 1 / 2, 2, 1 / 10, 0, 0] = Inr NInf"
proof -
  have a: "lnprior ex_ext ex_model [1, 1, 3 / 2, 1 / 2, 0, 3, 1 / 2, 0, 1 / 10, 0, 0] = Inr NInf"
    by (rule lnprior_invalid_is_minus_inf) (simp_all add: ex_n_planets spec_invalid_def)
  have b: "lnprior ex_ext ex_model [1, 1, 1 / 2, 1 / 2, 0, - 3, 1 / 2, 0, 1 / 10, 0, 0] = Inr NInf"
    by (rule lnprior_invalid_is_minus_inf)
      (simp_all add: ex_n_planets spec_invalid_def spec_candidate_invalid_def)
  have c: "lnprior ex_ext ex_model [1, 0, 1 / 2, 1 / 2, 0, 3, 1 / 2, 2, 1 / 10, 0, 0] = Inr NInf"
    by (rule lnprior_invalid_is_minus_inf)
      (simp_all add: ex_n_planets spec_invalid_def spec_candidate_invalid_def spec_scaled_b_def
        lnprior_aR_def np_cbrt_def)
  from a b c show ?thesis by simp
qed

lemma sq_less_one:
  fixes e :: real
  assumes "0 \<le> e" "e < 1"
  shows "e * e < 1"
proof (cases "e = 0")
  case True
  then show ?thesis by simp
next
  case False
  with assms have "0 < e" by simp
  then have "e * e < 1 * 1" using assms by (intro mult_strict_mono) simp_all
  then show ?thesis by simp
qed

lemma lnprior_arg_b0:
  assumes "0 \<le> e" "e < 1"
  shows "\<not> np_less (Fin 1) (lnprior_arg E rhostar period 0 e w)"
proof -
  have d: "1 - e * e \<noteq> 0" using sq_less_one [OF assms] by simp
  show ?thesis
    using d by (cases "lnprior_aR E rhostar period")
      (auto simp: lnprior_arg_def lnprior_factor_def)
qed

text \<open>
  C4: the program does not compute the Gaussian terms of the specification. In the worked
  example with the fitted period 5 against the discovery measurement 3 with uncertainty
  1, \<open>lnprior\<close> returns \<open>-1\<close>: its term on the period is
  \<open>-0.5 (period - prior_p) / prior_p_err\<^sup>2\<close>, the difference not squared. The sum the
  specification states is \<open>-2\<close>.
\<close>

theorem lnprior_period_term_not_squared:
  "lnprior ex_ext ex_model [1, 1, 1 / 2, 1 / 2, 0, 5, 1 / 2, 0, 1, 0, 0] = Inr (Fin (- 1))
   \<and> spec_lnprior_value ex_model [1, 1, 1 / 2, 1 / 2, 0, 5, 1 / 2, 0, 1, 0, 0] = - 2"
proof -
  have arg: "\<not> np_less (Fin 1) (lnprior_arg ex_ext 1 5 0 0 0)"
    by (rule lnprior_arg_b0) simp_all
  have body: "lnprior_body ex_ext ex_model [1, 1, 1 / 2, 1 / 2, 0, 5, 1 / 2, 0, 1, 0, 0] 1 0 (Fin 0)
      = Inr (Next (Fin (- 1)))"
    using arg
    by (simp add: lnprior_body_def ex_model_def TransitModel_init_def ex_lc_def ex_planet_def)
  have "lnprior ex_ext ex_model [1, 1, 1 / 2, 1 / 2, 0, 5, 1 / 2, 0, 1, 0, 0] = Inr (Fin (- 1))"
    using body by (simp add: lnprior_def ex_n_planets)
  moreover have "spec_lnprior_value ex_model [1, 1, 1 / 2, 1 / 2, 0, 5, 1 / 2, 0, 1, 0, 0] = - 2"
    unfolding spec_lnprior_value_def ex_n_planets
    by (simp add: ex_model_def TransitModel_init_def ex_lc_def ex_planet_def)
  ultimately show ?thesis by simp
qed

section \<open>The posterior samples\<close>

text \<open>
  C8: on a model with no sampler and no cached table, as \<open>__init__\<close> leaves it, the
  accessor \<open>samples\<close> raises AttributeError at once; nothing is derived and the model is
  unchanged.
\<close>

theorem samples_before_fit_raises:
  assumes "tm_sampler m = None" and "tm_samples m = None"
  shows "samples m = (Inl AttributeError, m, [])"
  using assms by (simp add: samples_def)

theorem samples_before_fit_witness:
  "samples (TransitModel_init ex_lc 2 ''constant'')
     = (Inl AttributeError, TransitModel_init ex_lc 2 ''constant'', [])"
  by (rule samples_before_fit_raises) (simp_all add: TransitModel_init_def)

lemma make_samples_inner_total:
  assumes "\<forall>(j, par) \<in> set items. 5 + j + i * 6 < fc_ndim s"
  shows "\<exists>df'. make_samples_inner s i items df = Inr df'"
  using assms
proof (induction items arbitrary: df)
  case Nil
  then show ?case by simp
next
  case (Cons a items)
  obtain j par where a: "a = (j, par)" by (cases a)
  with Cons.prems have "5 + j + i * 6 < fc_ndim s" by simp
  moreover have "\<forall>(j, par) \<in> set items. 5 + j + i * 6 < fc_ndim s" using Cons.prems by simp
  ultimately show ?case using Cons.IH a by (simp add: flatchain_col_def)
qed

lemma make_samples_outer_total:
  assumes "\<forall>i \<in> set is. 5 + 6 + i * 6 \<le> fc_ndim s"
  shows "\<exists>df'. make_samples_outer s is df = Inr df'"
  using assms
proof (induction "is" arbitrary: df)
  case Nil
  then show ?case by simp
next
  case (Cons i "is")
  have "\<forall>(j, par) \<in> set (enumerate 0 par_names). 5 + j + i * 6 < fc_ndim s"
    using Cons.prems by (auto simp: in_set_enumerate_eq par_names_def)
  then obtain df1 where "make_samples_inner s i (enumerate 0 par_names) df = Inr df1"
    using make_samples_inner_total by blast
  moreover have "\<exists>df'. make_samples_outer s is df1 = Inr df'"
    using Cons.prems by (intro Cons.IH) simp
  ultimately show ?case by simp
qed

text \<open>A chain with a column for every parameter gives a table.\<close>

lemma make_samples_table_total:
  assumes "5 + 6 * n \<le> fc_ndim s"
  shows "\<exists>df. make_samples_table s n = Inr df"
proof -
  have "\<forall>i \<in> set [0 ..< n]. 5 + 6 + i * 6 \<le> fc_ndim s" using assms by auto
  then show ?thesis
    using assms make_samples_outer_total [of "[0 ..< n]" s]
    by (simp add: make_samples_table_def flatchain_col_def)
qed

lemma samples_cached_fixed:
  assumes "tm_samples m = Some df"
  shows "samples m = (Inr df, m, [])"
  using assms by (simp add: samples_def)

text \<open>
  \<open>fit_emcee\<close> does not clear \<open>_samples\<close>: on a model that holds a table already, the
  access after a new run returns that table and derives nothing.
\<close>

lemma samples_after_refit_keeps_cache:
  assumes "tm_samples m = Some df0"
  shows "samples (fit_emcee s m) = (Inr df0, fit_emcee s m, [])"
  using assms by (simp add: samples_def fit_emcee_def)

text \<open>
  C9, amended by the condition that the model holds no table when the run starts: after
  a sampling run on a model with no cached table, whose chain has a column for
  each of the \<open>5 + 6 n\<close> parameters, the first access to \<open>samples\<close> calls
  \<open>_make_samples\<close> once, returns the table built from the chain and stores it; the
  access after it returns the same table, leaves the model as it is and calls
  \<open>_make_samples\<close> no more, and so does every later one.
\<close>

theorem samples_materialized_once:
  assumes "tm_samples m = None" and "5 + 6 * n_planets (tm_lc m) \<le> fc_ndim s"
  shows "\<exists>df. make_samples_table s (n_planets (tm_lc m)) = Inr df
     \<and> samples (fit_emcee s m) = (Inr df, (fit_emcee s m)\<lparr>tm_samples := Some df\<rparr>, [Call_make_samples])
     \<and> samples ((fit_emcee s m)\<lparr>tm_samples := Some df\<rparr>)
         = (Inr df, (fit_emcee s m)\<lparr>tm_samples := Some df\<rparr>, [])"
proof -
  obtain df where df: "make_samples_table s (n_planets (tm_lc m)) = Inr df"
    using make_samples_table_total [OF assms(2)] by blast
  have "samples (fit_emcee s m) = (Inr df, (fit_emcee s m)\<lparr>tm_samples := Some df\<rparr>, [Call_make_samples])"
    using assms(1) df by (simp add: samples_def make_samples_def fit_emcee_def)
  moreover have "samples ((fit_emcee s m)\<lparr>tm_samples := Some df\<rparr>)
         = (Inr df, (fit_emcee s m)\<lparr>tm_samples := Some df\<rparr>, [])"
    by (rule samples_cached_fixed) simp
  ultimately show ?thesis using df by blast
qed

theorem samples_materialized_once_witness:
  "\<exists>df. make_samples_table ex_sampler (n_planets (tm_lc ex_model)) = Inr df
     \<and> samples (fit_emcee ex_sampler ex_model)
         = (Inr df, (fit_emcee ex_sampler ex_model)\<lparr>tm_samples := Some df\<rparr>, [Call_make_samples])
     \<and> samples ((fit_emcee ex_sampler ex_model)\<lparr>tm_samples := Some df\<rparr>)
         = (Inr df, (fit_emcee ex_sampler ex_model)\<lparr>tm_samples := Some df\<rparr>, [])"
  by (rule samples_materialized_once)
    (simp_all add: ex_model_def TransitModel_init_def ex_sampler_def ex_lc_def n_planets_def)

section \<open>The flux model\<close>

lemma selected_map: "selected (map P xs) xs = filter P xs"
  by (induction xs) (simp_all add: selected_def)

lemma length_scatter: "length (scatter cs xs vs) = length xs"
  by (induction cs xs vs rule: scatter.induct) (simp_all split: list.splits)

lemma nth_scatter:
  assumes "length cs = length xs" and "length vs = length (filter id cs)" and "j < length xs"
  shows "scatter cs xs vs ! j = (if cs ! j then vs ! length (filter id (take j cs)) else xs ! j)"
  using assms
proof (induction cs xs vs arbitrary: j rule: scatter.induct)
  case (1 c cs x xs vs)
  show ?case
  proof (cases c)
    case True
    with "1.prems" obtain v vs' where vs: "vs = v # vs'" by (cases vs) auto
    show ?thesis
    proof (cases j)
      case 0
      then show ?thesis using True vs by simp
    next
      case (Suc k)
      have "scatter cs xs vs' ! k = (if cs ! k then vs' ! length (filter id (take k cs)) else xs ! k)"
        using "1.prems" True vs Suc by (intro "1.IH"(2)) simp_all
      then show ?thesis using True vs Suc by (simp add: id_def)
    qed
  next
    case False
    show ?thesis
    proof (cases j)
      case 0
      then show ?thesis using False by simp
    next
      case (Suc k)
      have "scatter cs xs vs ! k = (if cs ! k then vs ! length (filter id (take k cs)) else xs ! k)"
        using "1.prems" False Suc by (intro "1.IH"(3)) simp_all
      then show ?thesis using False Suc by (simp add: id_def)
    qed
  qed
qed simp_all

lemma evaluate_close_eq:
  assumes "\<forall>i \<in> set is. i < n_planets (tm_lc m)"
    and "length c0 = length (LightCurve_t (tm_lc m))"
  shows "evaluate_close E m is c0
     = Inr (map2 (\<lambda>c x. c \<or> (\<exists>i \<in> set is. planet_near E m i x)) c0 (LightCurve_t (tm_lc m)))"
  using assms
proof (induction "is" arbitrary: c0)
  case Nil
  then show ?case by (auto intro!: nth_equalityI)
next
  case (Cons i "is")
  let ?ts = "LightCurve_t (tm_lc m)"
  let ?c = "map (planet_near E m i) ?ts"
  have i: "i < length (lc_planets (tm_lc m))" using Cons.prems(1) by (simp add: n_planets_def)
  have cl: "LightCurve_close E (tm_lc m) i (tm_width m) = Inr ?c"
    using i by (simp add: LightCurve_close_def LightCurve_t_close_def Planet_t_close_def
        Planet_t_folded_def planet_near_def LightCurve_t_def comp_def)
  have z: "np_ior c0 ?c = Inr (map2 (\<or>) c0 ?c)"
    using Cons.prems(2) by (simp add: np_ior_def)
  have "evaluate_close E m is (map2 (\<or>) c0 ?c)
     = Inr (map2 (\<lambda>c x. c \<or> (\<exists>i \<in> set is. planet_near E m i x)) (map2 (\<or>) c0 ?c) ?ts)"
    using Cons.prems by (intro Cons.IH) simp_all
  moreover have "map2 (\<lambda>c x. c \<or> (\<exists>i \<in> set is. planet_near E m i x)) (map2 (\<or>) c0 ?c) ?ts
     = map2 (\<lambda>c x. c \<or> (\<exists>i' \<in> set (i # is). planet_near E m i' x)) c0 ?ts"
    using Cons.prems(2) by (intro nth_equalityI) auto
  ultimately show ?case using cl z by simp
qed

lemma near_iff:
  "(\<exists>i \<in> set [0 ..< n_planets (tm_lc m)]. planet_near E m i x) = spec_near_transit E m x"
proof
  assume "\<exists>i \<in> set [0 ..< n_planets (tm_lc m)]. planet_near E m i x"
  then obtain i where i: "i < length (lc_planets (tm_lc m))" and n: "planet_near E m i x"
    by (auto simp: n_planets_def)
  show "spec_near_transit E m x"
    unfolding spec_near_transit_def
    using i n by (intro bexI [of _ "lc_planets (tm_lc m) ! i"]) (simp_all add: planet_near_def)
next
  assume "spec_near_transit E m x"
  then obtain pl where pl: "pl \<in> set (lc_planets (tm_lc m))"
    and n: "\<bar>ext_t_folded E x (pl_period pl) (pl_epoch pl)\<bar> < tm_width m * pl_duration pl"
    by (auto simp: spec_near_transit_def)
  from pl obtain i where i: "i < length (lc_planets (tm_lc m))" and e: "lc_planets (tm_lc m) ! i = pl"
    by (auto simp: in_set_conv_nth)
  show "\<exists>i \<in> set [0 ..< n_planets (tm_lc m)]. planet_near E m i x"
    using i e n by (intro bexI [of _ i]) (simp_all add: planet_near_def n_planets_def)
qed

lemma evaluate_close_all:
  "evaluate_close E m [0 ..< n_planets (tm_lc m)] (map (\<lambda>_. False) (LightCurve_t (tm_lc m)))
     = Inr (map (spec_near_transit E m) (LightCurve_t (tm_lc m)))"
proof -
  let ?ts = "LightCurve_t (tm_lc m)"
  have "evaluate_close E m [0 ..< n_planets (tm_lc m)] (map (\<lambda>_. False) ?ts)
     = Inr (map2 (\<lambda>c x. c \<or> (\<exists>i \<in> set [0 ..< n_planets (tm_lc m)]. planet_near E m i x))
          (map (\<lambda>_. False) ?ts) ?ts)"
    by (intro evaluate_close_eq) simp_all
  moreover have "map2 (\<lambda>c x. c \<or> (\<exists>i \<in> set [0 ..< n_planets (tm_lc m)]. planet_near E m i x))
          (map (\<lambda>_. False) ?ts) ?ts = map (spec_near_transit E m) ?ts"
    unfolding near_iff by (intro nth_equalityI) simp_all
  ultimately show ?thesis by simp
qed

lemma evaluate_unfold:
  assumes "p \<noteq> []"
  shows "evaluate E m p =
     (case ext_lc_eval E (drop 1 p) (filter (spec_near_transit E m) (LightCurve_t (tm_lc m)))
             (lc_texp (tm_lc m)) of
        Inl e \<Rightarrow> (Inl e, [Call_lc_eval (drop 1 p)
             (filter (spec_near_transit E m) (LightCurve_t (tm_lc m))) (lc_texp (tm_lc m))])
      | Inr vals \<Rightarrow>
          (setitem_mask (continuum (p ! 0) (LightCurve_t (tm_lc m)))
             (map (spec_near_transit E m) (LightCurve_t (tm_lc m))) vals,
           [Call_lc_eval (drop 1 p)
             (filter (spec_near_transit E m) (LightCurve_t (tm_lc m))) (lc_texp (tm_lc m))]))"
proof -
  obtain p0 rest where p: "p = p0 # rest" using assms by (cases p) auto
  show ?thesis
    unfolding p evaluate_def
    by (simp add: evaluate_close_all selected_map Let_def split: sum.splits)
qed

lemma count_near:
  "length (filter id (map P xs)) = length (filter P xs)"
  by (induction xs) simp_all

lemma count_near_take:
  "length (filter id (take j (map P xs))) = length (filter P (take j xs))"
  by (simp add: take_map count_near)

text \<open>
  C2: for a parameter vector of length \<open>5 + 6 n\<close>, when the transit-physics model returns
  one flux per time it is given, \<open>evaluate\<close> calls it once, with \<open>p[1:]\<close>, the times near
  a transit and the exposure time, and returns an array as long as the times that holds
  \<open>p[0]\<close> at every index not near a transit and, at the \<open>k\<close>-th index near a transit, the
  \<open>k\<close>-th flux of the model.
\<close>

theorem evaluate_continuum_and_transits:
  assumes len: "length p = 5 + 6 * n_planets (tm_lc m)"
    and ev: "ext_lc_eval E (drop 1 p) (filter (spec_near_transit E m) (LightCurve_t (tm_lc m)))
               (lc_texp (tm_lc m)) = Inr vals"
    and lv: "length vals = length (filter (spec_near_transit E m) (LightCurve_t (tm_lc m)))"
  shows "\<exists>f. evaluate E m p =
           (Inr f, [Call_lc_eval (drop 1 p)
              (filter (spec_near_transit E m) (LightCurve_t (tm_lc m))) (lc_texp (tm_lc m))])
       \<and> length f = length (LightCurve_t (tm_lc m))
       \<and> (\<forall>j < length (LightCurve_t (tm_lc m)).
            f ! j = (if spec_near_transit E m (LightCurve_t (tm_lc m) ! j)
                     then vals ! length (filter (spec_near_transit E m) (take j (LightCurve_t (tm_lc m))))
                     else p ! 0))"
proof -
  let ?ts = "LightCurve_t (tm_lc m)"
  let ?near = "spec_near_transit E m"
  let ?f = "scatter (map ?near ?ts) (continuum (p ! 0) ?ts) vals"
  have p: "p \<noteq> []" using len by auto
  have lc: "length (continuum (p ! 0) ?ts) = length ?ts" by (simp add: continuum_def)
  have cnt: "length vals = length (filter id (map ?near ?ts))" using lv by (simp add: count_near)
  have e: "evaluate E m p = (Inr ?f, [Call_lc_eval (drop 1 p) (filter ?near ?ts) (lc_texp (tm_lc m))])"
    using ev cnt by (simp add: evaluate_unfold [OF p] setitem_mask_def)
  have l: "length ?f = length ?ts" by (simp add: length_scatter lc)
  have n: "?f ! j = (if ?near (?ts ! j) then vals ! length (filter ?near (take j ?ts)) else p ! 0)"
    if j: "j < length ?ts" for j
  proof -
    have "?f ! j = (if map ?near ?ts ! j then vals ! length (filter id (take j (map ?near ?ts)))
                    else continuum (p ! 0) ?ts ! j)"
      using j cnt by (intro nth_scatter) (simp_all add: lc)
    then show ?thesis using j by (simp add: count_near_take continuum_def)
  qed
  show ?thesis using e l n by blast
qed


lemma ex_times: "LightCurve_t (tm_lc ex_model) = [1 / 2, 2]"
  by (simp add: ex_model_def TransitModel_init_def ex_lc_def LightCurve_t_def LightCurve_time_def
      unmasked_def)

lemma ex_near: "spec_near_transit ex_ext ex_model x = (\<bar>x - 1 / 2\<bar> < 1 / 5)"
  by (simp add: spec_near_transit_def ex_model_def TransitModel_init_def ex_lc_def ex_planet_def
      ex_ext_def)

theorem evaluate_continuum_and_transits_witness:
  "\<exists>f. evaluate ex_ext ex_model [1, 1, 1 / 2, 1 / 2, 0, 3, 1 / 2, 0, 1 / 10, 0, 0]
         = (Inr f, [Call_lc_eval [1, 1 / 2, 1 / 2, 0, 3, 1 / 2, 0, 1 / 10, 0, 0] [1 / 2] (1 / 50)])
       \<and> length f = 2 \<and> f ! 0 = 99 / 100 \<and> f ! 1 = 1"
proof -
  let ?p = "[1, 1, 1 / 2, 1 / 2, 0, 3, 1 / 2, 0, 1 / 10, 0, 0] :: real list"
  have texp: "lc_texp (tm_lc ex_model) = 1 / 50"
    by (simp add: ex_model_def TransitModel_init_def ex_lc_def)
  have flt: "filter (spec_near_transit ex_ext ex_model) (LightCurve_t (tm_lc ex_model)) = [1 / 2]"
    by (simp add: ex_times ex_near)
  have len: "length ?p = 5 + 6 * n_planets (tm_lc ex_model)"
    by (simp add: ex_n_planets)
  have ev: "ext_lc_eval ex_ext (drop 1 ?p)
      (filter (spec_near_transit ex_ext ex_model) (LightCurve_t (tm_lc ex_model)))
      (lc_texp (tm_lc ex_model)) = Inr [99 / 100]"
    unfolding flt by (simp add: ex_ext_def)
  have lv: "length [99 / 100 :: real]
      = length (filter (spec_near_transit ex_ext ex_model) (LightCurve_t (tm_lc ex_model)))"
    unfolding flt by simp
  from evaluate_continuum_and_transits [OF len ev lv]
  obtain f where e: "evaluate ex_ext ex_model ?p =
           (Inr f, [Call_lc_eval (drop 1 ?p)
              (filter (spec_near_transit ex_ext ex_model) (LightCurve_t (tm_lc ex_model)))
              (lc_texp (tm_lc ex_model))])"
    and l: "length f = length (LightCurve_t (tm_lc ex_model))"
    and n: "\<forall>j < length (LightCurve_t (tm_lc ex_model)).
            f ! j = (if spec_near_transit ex_ext ex_model (LightCurve_t (tm_lc ex_model) ! j)
                     then [99 / 100] ! length (filter (spec_near_transit ex_ext ex_model)
                            (take j (LightCurve_t (tm_lc ex_model))))
                     else ?p ! 0)"
    by blast
  have f0: "f ! 0 = 99 / 100" using n [rule_format, of 0] by (simp add: ex_times ex_near)
  have f1: "f ! 1 = 1" using n [rule_format, of 1] by (simp add: ex_times ex_near)
  show ?thesis
    using e l f0 f1 unfolding flt texp by (intro exI [of _ f]) (simp add: ex_times)
qed

section \<open>The likelihood\<close>


lemma lnlike_sum_gauss:
  assumes "length fm = length fl" and "length fl = length fe" and "\<forall>e \<in> set fe. e \<noteq> 0"
  shows "lnlike_sum fm fl fe = Inr (Fin (spec_gauss_loglike fm fl fe))"
proof -
  have "np_sum (map2 (\<lambda>a b. np_div (Fin a) (Fin b))
           (map (\<lambda>x. - 0.5 * x ^ 2) (map2 (\<lambda>a b. a - b) fm fl)) (map (\<lambda>x. x ^ 2) fe))
        = Fin (spec_gauss_loglike fm fl fe)"
    using assms
  proof (induction fm fl fe rule: list_induct3)
    case Nil
    then show ?case by (simp add: spec_gauss_loglike_def)
  next
    case (Cons mo fm ob fl er fe)
    then have er: "er \<noteq> 0" by simp
    have ih: "np_sum (map2 (\<lambda>a b. np_div (Fin a) (Fin b))
           (map (\<lambda>x. - 0.5 * x ^ 2) (map2 (\<lambda>a b. a - b) fm fl)) (map (\<lambda>x. x ^ 2) fe))
        = Fin (spec_gauss_loglike fm fl fe)"
      using Cons by simp
    have "np_sum (map2 (\<lambda>a b. np_div (Fin a) (Fin b))
           (map (\<lambda>x. - 0.5 * x ^ 2) (map2 (\<lambda>a b. a - b) (mo # fm) (ob # fl)))
           (map (\<lambda>x. x ^ 2) (er # fe)))
        = np_add (np_div (Fin (- 0.5 * (mo - ob) ^ 2)) (Fin (er ^ 2)))
            (np_sum (map2 (\<lambda>a b. np_div (Fin a) (Fin b))
               (map (\<lambda>x. - 0.5 * x ^ 2) (map2 (\<lambda>a b. a - b) fm fl)) (map (\<lambda>x. x ^ 2) fe)))"
      by simp
    also have "\<dots> = np_add (np_div (Fin (- 0.5 * (mo - ob) ^ 2)) (Fin (er ^ 2)))
            (Fin (spec_gauss_loglike fm fl fe))"
      by (simp only: ih)
    also have "\<dots> = Fin (spec_gauss_loglike (mo # fm) (ob # fl) (er # fe))"
      using er by (simp add: spec_gauss_loglike_def power_divide field_simps)
    finally show ?case .
  qed
  then show ?thesis
    using assms by (simp add: lnlike_sum_def np_zip_with_def)
qed



lemma ex_lc_eval: "ext_lc_eval ex_ext p ts texp = Inr (map (\<lambda>x. 99 / 100) ts)"
  by (simp add: ex_ext_def)

lemma ex_evaluate:
  "evaluate ex_ext ex_model [1, 1, 1 / 2, 1 / 2, 0, 3, 1 / 2, 0, 1 / 10, 0, 0]
     = (Inr [99 / 100, 1],
        [Call_lc_eval [1, 1 / 2, 1 / 2, 0, 3, 1 / 2, 0, 1 / 10, 0, 0] [1 / 2] (1 / 50)])"
proof -
  have texp: "lc_texp (tm_lc ex_model) = 1 / 50"
    by (simp add: ex_model_def TransitModel_init_def ex_lc_def)
  show ?thesis
    by (simp add: evaluate_unfold ex_lc_eval ex_times ex_near texp setitem_mask_def continuum_def)
qed



section \<open>The posterior\<close>

lemma lnprior_arg_lc_eval:
  "lnprior_arg (E\<lparr>ext_lc_eval := g\<rparr>) rhostar period b e w = lnprior_arg E rhostar period b e w"
  by (simp add: lnprior_arg_def lnprior_aR_def)

lemma lnprior_body_lc_eval:
  "lnprior_body (E\<lparr>ext_lc_eval := g\<rparr>) m p rhostar i tot = lnprior_body E m p rhostar i tot"
  unfolding lnprior_body_def lnprior_arg_lc_eval by (rule refl)

lemma lnprior_loop_lc_eval:
  "lnprior_loop (E\<lparr>ext_lc_eval := g\<rparr>) m p rhostar is tot = lnprior_loop E m p rhostar is tot"
  by (induction "is" arbitrary: tot) (simp_all add: lnprior_body_lc_eval split: sum.splits loop_step.splits)

lemma lnprior_lc_eval: "lnprior (E\<lparr>ext_lc_eval := g\<rparr>) m p = lnprior E m p"
  unfolding lnprior_def lnprior_loop_lc_eval by (rule refl)

lemma lnlike_logs_call:
  assumes "lnlike E m p = (r, cs)"
  shows "\<exists>cs'. cs = Call_lnlike p # cs'"
  using assms by (cases "evaluate E m p") (auto simp: lnlike_def split: sum.splits if_splits)

text \<open>
  C1: when \<open>lnprior\<close> returns a value that is not finite, \<open>lnpost\<close> returns that value
  and the list of calls is empty: neither \<open>lnlike\<close> nor the transit-physics model is
  called, and the result is the same whatever that model would do. When \<open>lnprior\<close>
  returns a finite value and \<open>lnlike\<close> a value, \<open>lnpost\<close> returns their sum, and
  \<open>lnlike\<close> has been called.
\<close>

theorem lnpost_short_circuit:
  "(\<forall>prior. lnprior E m p = Inr prior \<and> \<not> np_isfinite prior \<longrightarrow>
       lnpost E m p = (Inr prior, [])
       \<and> (\<forall>g. lnpost (E\<lparr>ext_lc_eval := g\<rparr>) m p = (Inr prior, [])))
   \<and> (\<forall>prior like cs. lnprior E m p = Inr prior \<and> np_isfinite prior
         \<and> lnlike E m p = (Inr like, cs) \<longrightarrow>
       lnpost E m p = (Inr (np_add prior like), cs) \<and> hd cs = Call_lnlike p)"
proof (intro conjI allI impI)
  fix prior
  assume a: "lnprior E m p = Inr prior \<and> \<not> np_isfinite prior"
  then show "lnpost E m p = (Inr prior, [])" by (simp add: lnpost_def)
  fix g
  show "lnpost (E\<lparr>ext_lc_eval := g\<rparr>) m p = (Inr prior, [])"
    using a by (simp add: lnpost_def lnprior_lc_eval)
next
  fix prior like cs
  assume a: "lnprior E m p = Inr prior \<and> np_isfinite prior \<and> lnlike E m p = (Inr like, cs)"
  then show "lnpost E m p = (Inr (np_add prior like), cs)" by (simp add: lnpost_def)
  show "hd cs = Call_lnlike p" using a lnlike_logs_call [of E m p "Inr like" cs] by auto
qed

lemma ex_lnlike:
  "lnlike ex_ext ex_model [1, 1, 1 / 2, 1 / 2, 0, 3, 1 / 2, 0, 1 / 10, 0, 0]
     = (Inr (Fin (- (1 / 200))),
        [Call_lnlike [1, 1, 1 / 2, 1 / 2, 0, 3, 1 / 2, 0, 1 / 10, 0, 0],
         Call_lc_eval [1, 1 / 2, 1 / 2, 0, 3, 1 / 2, 0, 1 / 10, 0, 0] [1 / 2] (1 / 50)])"
proof -
  have fl: "LightCurve_flux (tm_lc ex_model) = [1, 1]"
    by (simp add: ex_model_def TransitModel_init_def ex_lc_def LightCurve_flux_def unmasked_def)
  have fe: "LightCurve_flux_err (tm_lc ex_model) = [1 / 10, 1 / 10]"
    by (simp add: ex_model_def TransitModel_init_def ex_lc_def LightCurve_flux_err_def unmasked_def)
  have "lnlike_sum [99 / 100, 1] [1, 1] [1 / 10, 1 / 10] = Inr (Fin (- (1 / 200)))"
    by (simp add: lnlike_sum_gauss spec_gauss_loglike_def power2_eq_square)
  then show ?thesis by (simp add: lnlike_def ex_evaluate fl fe)
qed

lemma ex_lnprior:
  "lnprior ex_ext ex_model [1, 1, 1 / 2, 1 / 2, 0, 3, 1 / 2, 0, 1 / 10, 0, 0] = Inr (Fin (ln 10))"
proof -
  have arg: "\<not> np_less (Fin 1) (lnprior_arg ex_ext 1 3 0 0 0)"
    by (rule lnprior_arg_b0) simp_all
  have body: "lnprior_body ex_ext ex_model [1, 1, 1 / 2, 1 / 2, 0, 3, 1 / 2, 0, 1 / 10, 0, 0] 1 0 (Fin 0)
      = Inr (Next (Fin (ln 10)))"
    using arg
    by (simp add: lnprior_body_def ex_model_def TransitModel_init_def ex_lc_def ex_planet_def)
  show ?thesis using body by (simp add: lnprior_def ex_n_planets)
qed

theorem lnpost_short_circuit_witness:
  "lnpost ex_ext ex_model [1, 1, 3 / 2, 1 / 2, 0, 3, 1 / 2, 0, 1 / 10, 0, 0] = (Inr NInf, [])
   \<and> lnpost ex_ext_invalid ex_model [1, 1, 3 / 2, 1 / 2, 0, 3, 1 / 2, 0, 1 / 10, 0, 0] = (Inr NInf, [])
   \<and> lnpost ex_ext ex_model [1, 1, 1 / 2, 1 / 2, 0, 3, 1 / 2, 0, 1 / 10, 0, 0]
       = (Inr (np_add (Fin (ln 10)) (Fin (- (1 / 200)))),
          [Call_lnlike [1, 1, 1 / 2, 1 / 2, 0, 3, 1 / 2, 0, 1 / 10, 0, 0],
           Call_lc_eval [1, 1 / 2, 1 / 2, 0, 3, 1 / 2, 0, 1 / 10, 0, 0] [1 / 2] (1 / 50)])"
proof -
  let ?bad = "[1, 1, 3 / 2, 1 / 2, 0, 3, 1 / 2, 0, 1 / 10, 0, 0] :: real list"
  let ?p = "[1, 1, 1 / 2, 1 / 2, 0, 3, 1 / 2, 0, 1 / 10, 0, 0] :: real list"
  have pr: "lnprior ex_ext ex_model ?bad = Inr NInf \<and> \<not> np_isfinite NInf"
    by (simp add: lnprior_def)
  have a: "lnpost ex_ext ex_model ?bad = (Inr NInf, [])"
    and b: "lnpost ex_ext_invalid ex_model ?bad = (Inr NInf, [])"
    using lnpost_short_circuit [of ex_ext ex_model ?bad] pr
    unfolding ex_ext_invalid_def by blast+
  have "lnprior ex_ext ex_model ?p = Inr (Fin (ln 10)) \<and> np_isfinite (Fin (ln 10))
      \<and> lnlike ex_ext ex_model ?p = (Inr (Fin (- (1 / 200))),
        [Call_lnlike ?p, Call_lc_eval (drop 1 ?p) [1 / 2] (1 / 50)])"
    by (simp add: ex_lnprior ex_lnlike)
  then have c: "lnpost ex_ext ex_model ?p = (Inr (np_add (Fin (ln 10)) (Fin (- (1 / 200)))),
        [Call_lnlike ?p, Call_lc_eval (drop 1 ?p) [1 / 2] (1 / 50)])"
    using lnpost_short_circuit [of ex_ext ex_model ?p] by blast
  from a b c show ?thesis by simp
qed

section \<open>Persistence\<close>

lemma map_of_store_put: "map_of (store_put st k nd) k = Some nd"
  by (simp add: store_put_def)

lemma store_put_twice: "store_put (store_put st k nd) k nd' = store_put st k nd'"
  by (simp add: store_put_def)

lemma open_store_upd: "open_store (fs(filename \<mapsto> st)) filename = st"
  by (simp add: open_store_def)

lemma samples_keeps_config:
  assumes "samples m = (r, m1, cs)"
  shows "tm_lc m1 = tm_lc m \<and> tm_width m1 = tm_width m
     \<and> tm_continuum_method m1 = tm_continuum_method m"
  using assms
  by (auto simp: samples_def make_samples_def split: if_splits option.splits sum.splits)

lemma save_hdf_after_check:
  assumes check: "save_hdf_check fs filename path overwrite appnd = Inr fs1"
    and sm: "samples m = (Inr df, m1, cs)"
  shows "save_hdf E m fs filename path overwrite appnd =
     (case ext_lc_save_hdf E (tm_lc m) (saved_fs m df fs1 filename path) filename path of
        Inl e \<Rightarrow> (Inl e, saved_fs m df fs1 filename path, m1)
      | Inr fs4 \<Rightarrow> (Inr (), fs4, m1))"
proof -
  have k: "tm_lc m1 = tm_lc m" "tm_width m1 = tm_width m"
    "tm_continuum_method m1 = tm_continuum_method m"
    using samples_keeps_config [OF sm] by simp_all
  have "set_attrs m1 (to_hdf df fs1 filename (path @ ''/samples'')) filename (path @ ''/samples'')
      = Inr (saved_fs m df fs1 filename path)"
    by (simp add: set_attrs_def to_hdf_def open_store_upd map_of_store_put store_put_twice
        saved_node_def saved_fs_def k)
  then show ?thesis
    using check sm by (simp add: save_hdf_def k split: sum.splits)
qed

lemma save_hdf_check_cases:
  "save_hdf_check fs filename path overwrite appnd = Inl IOError
     \<or> save_hdf_check fs filename path overwrite appnd = Inr fs
     \<or> save_hdf_check fs filename path overwrite appnd = Inr (fs(filename := None))"
  by (simp add: save_hdf_check_def split: option.splits)






text \<open>
  C6: for a model whose \<open>samples\<close> gives a table, when \<open>save_hdf\<close> succeeds, the light
  curve's own save leaves the node \<open>path/samples\<close> as it finds it, and the light curve's
  loader for the saved class returns a light curve, \<open>load_hdf\<close> from the same file and
  path returns a model with that same table as its samples, the saved width and the saved
  continuum method, on the light curve the loader of the saved class returned.
\<close>

theorem save_then_load_roundtrip:
  assumes sm: "fst (samples m) = Inr df"
    and save: "save_hdf E m fs filename path overwrite appnd = (Inr (), fs', m')"
    and keep: "\<forall>fs0 fs1. ext_lc_save_hdf E (tm_lc m) fs0 filename path = Inr fs1 \<longrightarrow>
        map_of (open_store fs1 filename) (hdf_key (path @ ''/samples''))
          = map_of (open_store fs0 filename) (hdf_key (path @ ''/samples''))"
    and load: "ext_lc_load_hdf E (lc_class (tm_lc m)) fs' filename path = Inr lc'"
  shows "load_hdf E fs' filename path
     = Inr ((TransitModel_init lc' (tm_width m) (tm_continuum_method m))\<lparr>tm_samples := Some df\<rparr>)"
proof -
  obtain m1 cs where s: "samples m = (Inr df, m1, cs)"
    using sm by (cases "samples m") auto
  obtain fs1 where check: "save_hdf_check fs filename path overwrite appnd = Inr fs1"
    using save by (cases "save_hdf_check fs filename path overwrite appnd") (auto simp: save_hdf_def)
  have ext: "ext_lc_save_hdf E (tm_lc m) (saved_fs m df fs1 filename path) filename path = Inr fs'"
    using save unfolding save_hdf_after_check [OF check s] by (auto split: sum.splits)
  have "map_of (open_store fs' filename) (hdf_key (path @ ''/samples''))
      = map_of (open_store (saved_fs m df fs1 filename path) filename) (hdf_key (path @ ''/samples''))"
    using keep ext by blast
  also have "\<dots> = Some (saved_node m df)"
    by (simp add: saved_fs_def open_store_upd map_of_store_put)
  finally have nd: "map_of (open_store fs' filename) (hdf_key (path @ ''/samples''))
      = Some (saved_node m df)" .
  show ?thesis
    using load by (simp add: load_hdf_def nd saved_node_def)
qed


lemma ex_fitted_samples: "samples ex_fitted = (Inr ex_df, ex_fitted, [])"
  by (rule samples_cached_fixed) (simp add: ex_fitted_def)

lemma ex_fitted_config:
  "tm_width ex_fitted = 2" "tm_continuum_method ex_fitted = ''constant''"
  "lc_class (tm_lc ex_fitted) = ''LightCurve''" "tm_lc ex_fitted = ex_lc"
  by (simp_all add: ex_fitted_def ex_model_def TransitModel_init_def ex_lc_def)

lemma ex_lc_save_hdf: "ext_lc_save_hdf ex_ext lc fs filename path = Inr fs"
  by (simp add: ex_ext_def)

lemma ex_lc_load_hdf: "ext_lc_load_hdf ex_ext ty fs filename path = Inr ex_lc"
  by (simp add: ex_ext_def)

theorem save_then_load_roundtrip_witness:
  "fst (save_hdf ex_ext ex_fitted Map.empty ''fit.h5'' ''run1'' False False) = Inr ()
   \<and> load_hdf ex_ext (fst (snd (save_hdf ex_ext ex_fitted Map.empty ''fit.h5'' ''run1'' False False)))
        ''fit.h5'' ''run1''
       = Inr ((TransitModel_init ex_lc 2 ''constant'')\<lparr>tm_samples := Some ex_df\<rparr>)"
proof -
  let ?fs' = "saved_fs ex_fitted ex_df Map.empty ''fit.h5'' ''run1''"
  have check: "save_hdf_check Map.empty ''fit.h5'' ''run1'' False False = Inr Map.empty"
    by (simp add: save_hdf_check_def)
  have r: "save_hdf ex_ext ex_fitted Map.empty ''fit.h5'' ''run1'' False False
      = (Inr (), ?fs', ex_fitted)"
    unfolding save_hdf_after_check [OF check ex_fitted_samples] by (simp add: ex_lc_save_hdf)
  have sm: "fst (samples ex_fitted) = Inr ex_df" by (simp add: ex_fitted_samples)
  have keep: "\<forall>fs0 fs1. ext_lc_save_hdf ex_ext (tm_lc ex_fitted) fs0 ''fit.h5'' ''run1'' = Inr fs1 \<longrightarrow>
        map_of (open_store fs1 ''fit.h5'') (hdf_key (''run1'' @ ''/samples''))
          = map_of (open_store fs0 ''fit.h5'') (hdf_key (''run1'' @ ''/samples''))"
    by (simp add: ex_lc_save_hdf)
  have load: "ext_lc_load_hdf ex_ext (lc_class (tm_lc ex_fitted)) ?fs' ''fit.h5'' ''run1'' = Inr ex_lc"
    by (simp add: ex_lc_load_hdf)
  have "load_hdf ex_ext ?fs' ''fit.h5'' ''run1''
     = Inr ((TransitModel_init ex_lc (tm_width ex_fitted) (tm_continuum_method ex_fitted))
          \<lparr>tm_samples := Some ex_df\<rparr>)"
    by (rule save_then_load_roundtrip [OF sm r keep load])
  then show ?thesis by (simp add: r ex_fitted_config)
qed


text \<open>
  The scenario of the specification: after a save under a path that is a pathname, with
  or without its leading slash, the path is in the store, so a second save there with
  neither option raises IOError. A path with a trailing slash is never in the store.
\<close>

lemma split_path_samples:
  "split_path cur (xs @ ''/samples'') = split_path cur xs @ [''samples'']"
  by (induction xs arbitrary: cur) simp_all

lemma hdf_key_samples: "hdf_key (path @ ''/samples'') = hdf_key path @ [''samples'']"
  by (simp add: hdf_key_def split_path_samples)

lemma store_contains_after:
  assumes "map_of st (hdf_key (path @ ''/samples'')) = Some nd"
    and "path = hdf_pathname (hdf_key path) \<or> path = tl (hdf_pathname (hdf_key path))"
  shows "store_contains st path"
proof -
  have "(hdf_key path @ [''samples''], nd) \<in> set st"
    using assms(1) by (auto simp: hdf_key_samples dest: map_of_SomeD)
  then have "list_ex (\<lambda>(k, nd). prefix (hdf_key path) k) st"
    by (auto simp: list_ex_iff intro!: bexI [of _ "(hdf_key path @ [''samples''], nd)"])
  then show ?thesis
    using assms(2) by (simp add: store_contains_def Let_def)
qed

lemma save_again_conflicts:
  assumes sm: "fst (samples m) = Inr df"
    and save: "save_hdf E m fs filename path overwrite appnd = (Inr (), fs', m')"
    and keep: "\<forall>fs0 fs1. ext_lc_save_hdf E (tm_lc m) fs0 filename path = Inr fs1 \<longrightarrow>
        map_of (open_store fs1 filename) (hdf_key (path @ ''/samples''))
          = map_of (open_store fs0 filename) (hdf_key (path @ ''/samples''))"
    and canon: "path = hdf_pathname (hdf_key path) \<or> path = tl (hdf_pathname (hdf_key path))"
  shows "fst (save_hdf E m2 fs' filename path False False) = Inl IOError"
proof -
  obtain m1 cs where s: "samples m = (Inr df, m1, cs)"
    using sm by (cases "samples m") auto
  obtain fs1 where check: "save_hdf_check fs filename path overwrite appnd = Inr fs1"
    using save by (cases "save_hdf_check fs filename path overwrite appnd") (auto simp: save_hdf_def)
  have ext: "ext_lc_save_hdf E (tm_lc m) (saved_fs m df fs1 filename path) filename path = Inr fs'"
    using save unfolding save_hdf_after_check [OF check s] by (auto split: sum.splits)
  have "map_of (open_store fs' filename) (hdf_key (path @ ''/samples''))
      = map_of (open_store (saved_fs m df fs1 filename path) filename) (hdf_key (path @ ''/samples''))"
    using keep ext by blast
  also have "\<dots> = Some (saved_node m df)"
    by (simp add: saved_fs_def open_store_upd map_of_store_put)
  finally have nd: "map_of (open_store fs' filename) (hdf_key (path @ ''/samples''))
      = Some (saved_node m df)" .
  then obtain st where st: "fs' filename = Some st"
    by (cases "fs' filename") (auto simp: open_store_def)
  then have "store_contains st path"
    using nd canon store_contains_after [of st path] by (simp add: open_store_def)
  then have "save_hdf_check fs' filename path False False = Inl IOError"
    using st by (simp add: save_hdf_check_def)
  then show ?thesis by (simp add: save_hdf_def)
qed

lemma store_contains_trailing_slash: "\<not> store_contains st ''run1/''"
  by (simp add: store_contains_def hdf_key_def hdf_pathname_def)

lemma save_hdf_check_trailing_slash:
  "save_hdf_check ex_fs ''fit.h5'' ''run1/'' False False = Inr ex_fs"
  by (simp add: save_hdf_check_def store_contains_trailing_slash split: option.splits)

section \<open>The prior on a valid parameter vector\<close>

lemma lnprior_body_valid:
  assumes len: "length p = 5 + 6 * n" and i: "i < n"
    and ok: "\<not> spec_candidate_invalid E p i"
    and errs: "prior_errs_nonzero m i"
  shows "lnprior_body E m p (p ! 1) i (Fin acc) = Inr (Next (Fin (acc + lnprior_terms m p i)))"
proof -
  let ?s = "take 6 (drop (5 + i * 6) p)"
  have l: "length ?s = 6" using slice6_length [OF len i] .
  have n0: "?s ! 0 = p ! (5 + 6 * i)" using slice6_nth [OF len i, of 0] by simp
  have n1: "?s ! 1 = p ! (5 + 6 * i + 1)" using slice6_nth [OF len i, of 1] by simp
  have n2: "?s ! 2 = p ! (5 + 6 * i + 2)" using slice6_nth [OF len i, of 2] by simp
  have n3: "?s ! 3 = p ! (5 + 6 * i + 3)" using slice6_nth [OF len i, of 3] by simp
  have n4: "?s ! 4 = p ! (5 + 6 * i + 4)" using slice6_nth [OF len i, of 4] by simp
  have n5: "?s ! 5 = p ! (5 + 6 * i + 5)" using slice6_nth [OF len i, of 5] by simp
  have e: "0 \<le> p ! (5 + 6 * i + 4)" "p ! (5 + 6 * i + 4) < 1"
    using ok by (simp_all add: spec_candidate_invalid_def Let_def)
  have arg: "lnprior_arg E (p ! 1) (p ! (5 + 6 * i)) (p ! (5 + 6 * i + 2)) (p ! (5 + 6 * i + 4)) (p ! (5 + 6 * i + 5))
        = spec_scaled_b E (p ! 1) (p ! (5 + 6 * i)) (p ! (5 + 6 * i + 2)) (p ! (5 + 6 * i + 4)) (p ! (5 + 6 * i + 5))"
    using e by (intro lnprior_arg_eq_spec)
  obtain pp pe where pp: "pl_prior_period (lc_planets (tm_lc m) ! i) = (pp, pe)"
    by (cases "pl_prior_period (lc_planets (tm_lc m) ! i)")
  obtain ep ee where ep: "pl_prior_epoch (lc_planets (tm_lc m) ! i) = (ep, ee)"
    by (cases "pl_prior_epoch (lc_planets (tm_lc m) ! i)")
  have nz: "pe \<noteq> 0" "ee \<noteq> 0" using errs pp ep by (simp_all add: prior_errs_nonzero_def)
  show ?thesis
    using ok nz
    unfolding lnprior_body_def Let_def l n0 n1 n2 n3 n4 n5 arg spec_candidate_invalid_def
      lnprior_terms_def pp ep
    by simp
qed

lemma lnprior_loop_valid:
  assumes len: "length p = 5 + 6 * n"
    and "\<forall>i \<in> set is. i < n \<and> \<not> spec_candidate_invalid E p i \<and> prior_errs_nonzero m i"
  shows "lnprior_loop E m p (p ! 1) is (Fin acc) = Inr (Fin (acc + (\<Sum>i \<leftarrow> is. lnprior_terms m p i)))"
  using assms(2)
proof (induction "is" arbitrary: acc)
  case Nil
  then show ?case by simp
next
  case (Cons i "is")
  have b: "lnprior_body E m p (p ! 1) i (Fin acc) = Inr (Next (Fin (acc + lnprior_terms m p i)))"
    using Cons.prems by (intro lnprior_body_valid [OF len]) simp_all
  have "lnprior_loop E m p (p ! 1) is (Fin (acc + lnprior_terms m p i))
      = Inr (Fin (acc + lnprior_terms m p i + (\<Sum>i \<leftarrow> is. lnprior_terms m p i)))"
    using Cons.prems by (intro Cons.IH) simp
  then show ?case using b by (simp add: add.assoc)
qed

text \<open>
  On a parameter vector that passes every check, with uncertainties that are not zero,
  \<open>lnprior\<close> returns the finite sum of the program's terms: the terms on the period and
  the epoch are linear in the difference to the discovery measurement.
\<close>

lemma lnprior_valid_value:
  assumes len: "length p = 5 + 6 * n_planets (tm_lc m)"
    and ok: "\<not> spec_invalid E (n_planets (tm_lc m)) p"
    and errs: "\<forall>i < n_planets (tm_lc m). prior_errs_nonzero m i"
  shows "lnprior E m p = Inr (Fin (\<Sum>i \<leftarrow> [0 ..< n_planets (tm_lc m)]. lnprior_terms m p i))"
proof -
  have l5: "length (take 5 p) = 5" using len by simp
  have nth: "take 5 p ! 1 = p ! 1" "take 5 p ! 2 = p ! 2" "take 5 p ! 3 = p ! 3"
    "take 5 p ! 4 = p ! 4" by simp_all
  have "lnprior_loop E m p (p ! 1) [0 ..< n_planets (tm_lc m)] (Fin 0)
      = Inr (Fin (0 + (\<Sum>i \<leftarrow> [0 ..< n_planets (tm_lc m)]. lnprior_terms m p i)))"
    using ok errs by (intro lnprior_loop_valid [OF len]) (auto simp: spec_invalid_def Let_def)
  then show ?thesis
    using ok unfolding lnprior_def Let_def l5 nth spec_invalid_def by auto
qed

section \<open>The likelihood at a zero error\<close>





section \<open>The samples after a run on a model that holds a table\<close>

lemma make_samples_inner_keeps:
  assumes "make_samples_inner s i items df = Inr df'" and "k \<in> dom df"
  shows "k \<in> dom df'"
  using assms
proof (induction items arbitrary: df)
  case Nil
  then show ?case by simp
next
  case (Cons a items)
  obtain j par where a: "a = (j, par)" by (cases a)
  from Cons.prems(1) obtain c where
    r: "make_samples_inner s i items (df(par @ ''_'' @ str_nat (i + 1) \<mapsto> c)) = Inr df'"
    unfolding a by (auto split: sum.splits)
  have "k \<in> dom (df(par @ ''_'' @ str_nat (i + 1) \<mapsto> c))" using Cons.prems(2) by simp
  then show ?case by (rule Cons.IH [OF r])
qed

lemma make_samples_outer_keeps:
  assumes "make_samples_outer s is df = Inr df'" and "k \<in> dom df"
  shows "k \<in> dom df'"
  using assms
proof (induction "is" arbitrary: df)
  case Nil
  then show ?case by simp
next
  case (Cons i "is")
  then obtain df1 where a: "make_samples_inner s i (enumerate 0 par_names) df = Inr df1"
    and b: "make_samples_outer s is df1 = Inr df'"
    by (auto split: sum.splits)
  have "k \<in> dom df1" using make_samples_inner_keeps [OF a Cons.prems(2)] .
  then show ?case using Cons.IH [OF b] by simp
qed

lemma make_samples_table_has_q1:
  assumes "make_samples_table s n = Inr df"
  shows "''q1'' \<in> dom df"
proof -
  from assms obtain df0 where r: "make_samples_outer s [0 ..< n] df0 = Inr df"
    and d: "''q1'' \<in> dom df0"
    by (auto simp: make_samples_table_def split: sum.splits)
  show ?thesis using make_samples_outer_keeps [OF r d] .
qed

text \<open>
  C9 as the specification states it fails on a model that holds a table when the run
  starts: in the worked example with a table in place, the first access after the
  sampling run returns that table and derives nothing, and the table is not the one the
  chain gives (it has no column \<open>q1\<close>).
\<close>

theorem samples_stale_after_refit:
  "samples (fit_emcee ex_sampler ex_fitted) = (Inr ex_df, fit_emcee ex_sampler ex_fitted, [])
   \<and> make_samples_table ex_sampler (n_planets (tm_lc (fit_emcee ex_sampler ex_fitted))) \<noteq> Inr ex_df"
proof -
  have a: "samples (fit_emcee ex_sampler ex_fitted) = (Inr ex_df, fit_emcee ex_sampler ex_fitted, [])"
    by (rule samples_after_refit_keeps_cache) (simp add: ex_fitted_def)
  have "''q1'' \<notin> dom ex_df" by (simp add: ex_df_def)
  then have b: "make_samples_table ex_sampler (n_planets (tm_lc (fit_emcee ex_sampler ex_fitted))) \<noteq> Inr ex_df"
    using make_samples_table_has_q1 by blast
  from a b show ?thesis by simp
qed

end
